theory Spec2Isabelle
  imports Complex_Main "HOL-Library.Word" "HOL-Library.Log_Nat"
begin

unbundle bit_operations_syntax

section \<open>Common conventions\<close>

text \<open>
  Two firmware images are embedded: \<^verbatim>\<open>esp32a_axis12\<close> (blade M1 and fixture M2,
  frequency mode) and \<^verbatim>\<open>esp32b_backstop\<close> (positioning axis M3 with quadrature
  encoder).

  \<^item> A GPIO level is a \<open>bool\<close>: \<open>True\<close> is HIGH, \<open>False\<close> is LOW.
  \<^item> A floating-point quantity is the rational number it denotes, as a \<open>real\<close>.
    In the ESP32-B model every \<^verbatim>\<open>float\<close> operation and literal is rounded to
    binary32 and every \<^verbatim>\<open>double\<close> operation to binary64 (section
    \<open>Binary floating point\<close>). In the ESP32-A model the arithmetic is exact.
  \<^item> Fixed-width integers are words; \<^verbatim>\<open>int32_t\<close> arithmetic wraps in two's
    complement and is compared with the signed orders.
  \<^item> Every line written to the serial port is appended to the transmit log of the
    state (\<open>txA\<close>, \<open>txB\<close>), as a constructor carrying the values that the format
    string prints.
  \<^item> A value read from the outside world (a pin level, \<^verbatim>\<open>millis()\<close>, a received
    line) is an argument of the function that reads it.
  \<^item> Each handler (a command function, one pass of \<^verbatim>\<open>loop\<close>, one interrupt
    service routine) is one atomic state transformer.
\<close>

subsection \<open>Arduino \<^verbatim>\<open>String\<close> operations used by the dispatchers\<close>

definition isspace :: "char \<Rightarrow> bool" where
  "isspace c = (c = CHR '' '' \<or> c = CHR 0x09 \<or> c = CHR 0x0A \<or> c = CHR 0x0B
                \<or> c = CHR 0x0C \<or> c = CHR 0x0D)"

definition trim :: "string \<Rightarrow> string" where
  "trim s = rev (dropWhile isspace (rev (dropWhile isspace s)))"

definition charAt :: "string \<Rightarrow> nat \<Rightarrow> char" where
  "charAt s i = (if i < length s then s ! i else CHR 0x00)"

definition substring :: "string \<Rightarrow> nat \<Rightarrow> string" where
  "substring s i = drop i s"

section \<open>ESP32-A: blade (M1) and fixture (M2) controller\<close>

subsection \<open>Constants\<close>

definition M1_PULSES_PER_REV :: real where "M1_PULSES_PER_REV = 22333"
definition M1_DIR_CW :: bool where "M1_DIR_CW = False"
definition MAX_FREQ_HZ :: real where "MAX_FREQ_HZ = 375000"
definition M2_DIR_FWD :: bool where "M2_DIR_FWD = False"
definition M2_STEPS_PER_MM :: real where "M2_STEPS_PER_MM = 750"
definition PWM_DUTY_CYCLE :: real where "PWM_DUTY_CYCLE = 50"
definition MIN_FREQ_HZ :: real where "MIN_FREQ_HZ = 1"

subsection \<open>State\<close>

text \<open>Lines the controller prints, one constructor per format string.\<close>

datatype responseA =
    BannerA string
  | EchoA string
  | IdA
  | StatusA bool "16 word" bool real bool
  | ErrM1UnknownSub
  | ErrM2UnknownSub
  | ErrUnknownCommandA
  | ErrM1RpmRange
  | M1Run "16 word" real
  | M1Stopped
  | M2Fwd
  | M2Rev
  | ErrM2HomeActive
  | M2Stopped
  | ErrM2VelRange
  | M2VelSet real

text \<open>
  The globals \<^verbatim>\<open>m1\<close>, \<^verbatim>\<open>m2\<close>, \<^verbatim>\<open>heartbeat_counter\<close> and
  \<^verbatim>\<open>last_status_ms\<close>, followed by the peripheral state the code writes: the two
  direction pins and, for each MCPWM timer, the programmed frequency (an
  \<^verbatim>\<open>uint32_t\<close>), the duty of operator A and whether the generator is forced low.
  Field \<^verbatim>\<open>m1.rpm\<close> of the source is \<open>m1_rpm\<close> here, and so on.
\<close>

record axis12 =
  m1_running :: bool
  m1_rpm :: "16 word"
  m1_freq_hz :: real
  m2_in_motion :: bool
  m2_direction_fwd :: bool
  m2_vel_mm_s :: real
  m2_freq_hz :: real
  heartbeat_counter :: "32 word"
  last_status_msA :: "32 word"
  m1_dir_pin :: bool
  m2_dir_pin :: bool
  pwm0_frequency :: nat
  pwm0_duty :: real
  pwm0_forced_low :: bool
  pwm1_frequency :: nat
  pwm1_duty :: real
  pwm1_forced_low :: bool
  txA :: "responseA list"

definition sendResponseA :: "responseA \<Rightarrow> axis12 \<Rightarrow> axis12" where
  "sendResponseA msg s = s\<lparr>txA := txA s @ [msg]\<rparr>"

subsection \<open>PWM helpers\<close>

text \<open>
  \<^verbatim>\<open>(uint32_t)freq_hz\<close> is applied to a value already clamped into
  \<open>[MIN_FREQ_HZ, MAX_FREQ_HZ]\<close>, where the conversion is the integer part.
\<close>

definition clamp_freq :: "real \<Rightarrow> real" where
  "clamp_freq freq_hz =
     (let f1 = (if freq_hz < MIN_FREQ_HZ then MIN_FREQ_HZ else freq_hz);
          f2 = (if f1 > MAX_FREQ_HZ then MAX_FREQ_HZ else f1)
      in f2)"

definition m1_pwm_set_frequency :: "real \<Rightarrow> axis12 \<Rightarrow> axis12" where
  "m1_pwm_set_frequency freq_hz s = s\<lparr>pwm0_frequency := nat \<lfloor>clamp_freq freq_hz\<rfloor>\<rparr>"

definition m1_pwm_enable :: "bool \<Rightarrow> axis12 \<Rightarrow> axis12" where
  "m1_pwm_enable enable s =
     (if enable then s\<lparr>pwm0_duty := PWM_DUTY_CYCLE, pwm0_forced_low := False\<rparr>
      else s\<lparr>pwm0_forced_low := True, pwm0_duty := 0\<rparr>)"

definition m2_pwm_set_frequency :: "real \<Rightarrow> axis12 \<Rightarrow> axis12" where
  "m2_pwm_set_frequency freq_hz s = s\<lparr>pwm1_frequency := nat \<lfloor>clamp_freq freq_hz\<rfloor>\<rparr>"

definition m2_pwm_enable :: "bool \<Rightarrow> axis12 \<Rightarrow> axis12" where
  "m2_pwm_enable enable s =
     (if enable then s\<lparr>pwm1_duty := PWM_DUTY_CYCLE, pwm1_forced_low := False\<rparr>
      else s\<lparr>pwm1_forced_low := True, pwm1_duty := 0\<rparr>)"

subsection \<open>M1 control\<close>

definition m1_set_rpm :: "16 word \<Rightarrow> axis12 \<Rightarrow> axis12" where
  "m1_set_rpm rpm s =
     (if rpm < 100 \<or> rpm > 6000 then sendResponseA ErrM1RpmRange s
      else
        let s1 = s\<lparr>m1_rpm := rpm\<rparr>;
            s2 = s1\<lparr>m1_freq_hz := real (unat rpm) * M1_PULSES_PER_REV / 60\<rparr>;
            s3 = (if m1_freq_hz s2 > MAX_FREQ_HZ then s2\<lparr>m1_freq_hz := MAX_FREQ_HZ\<rparr> else s2);
            s4 = m1_pwm_set_frequency (m1_freq_hz s3) s3;
            s5 = m1_pwm_enable True s4;
            s6 = s5\<lparr>m1_running := True\<rparr>
        in sendResponseA (M1Run rpm (m1_freq_hz s6)) s6)"

definition m1_stop :: "axis12 \<Rightarrow> axis12" where
  "m1_stop s =
     (let s1 = m1_pwm_enable False s;
          s2 = s1\<lparr>m1_running := False\<rparr>;
          s3 = s2\<lparr>m1_freq_hz := 0\<rparr>
      in sendResponseA M1Stopped s3)"

subsection \<open>M2 control\<close>

definition is_m2_home_active :: "bool \<Rightarrow> bool" where
  "is_m2_home_active home_pin = (home_pin = False)"

definition m2_feed_forward :: "axis12 \<Rightarrow> axis12" where
  "m2_feed_forward s =
     (let s1 = s\<lparr>m2_dir_pin := (if M2_DIR_FWD then True else False)\<rparr>;
          s2 = s1\<lparr>m2_direction_fwd := True\<rparr>;
          s3 = s2\<lparr>m2_in_motion := True\<rparr>;
          s4 = (if m2_vel_mm_s s3 = 0 then s3\<lparr>m2_vel_mm_s := 120\<rparr> else s3);
          s5 = s4\<lparr>m2_freq_hz := m2_vel_mm_s s4 * M2_STEPS_PER_MM\<rparr>;
          s6 = m2_pwm_set_frequency (m2_freq_hz s5) s5;
          s7 = m2_pwm_enable True s6
      in sendResponseA M2Fwd s7)"

definition m2_feed_reverse :: "bool \<Rightarrow> axis12 \<Rightarrow> axis12" where
  "m2_feed_reverse home_pin s =
     (if is_m2_home_active home_pin then sendResponseA ErrM2HomeActive s
      else
        let s1 = s\<lparr>m2_dir_pin := (if M2_DIR_FWD then False else True)\<rparr>;
            s2 = s1\<lparr>m2_direction_fwd := False\<rparr>;
            s3 = s2\<lparr>m2_in_motion := True\<rparr>;
            s4 = (if m2_vel_mm_s s3 = 0 then s3\<lparr>m2_vel_mm_s := 120\<rparr> else s3);
            s5 = s4\<lparr>m2_freq_hz := m2_vel_mm_s s4 * M2_STEPS_PER_MM\<rparr>;
            s6 = m2_pwm_set_frequency (m2_freq_hz s5) s5;
            s7 = m2_pwm_enable True s6
        in sendResponseA M2Rev s7)"

definition m2_stop :: "axis12 \<Rightarrow> axis12" where
  "m2_stop s =
     (let s1 = m2_pwm_enable False s;
          s2 = s1\<lparr>m2_in_motion := False\<rparr>;
          s3 = s2\<lparr>m2_freq_hz := 0\<rparr>
      in sendResponseA M2Stopped s3)"

definition m2_set_velocity :: "real \<Rightarrow> axis12 \<Rightarrow> axis12" where
  "m2_set_velocity vel s =
     (if vel < 1 \<or> vel > 400 then sendResponseA ErrM2VelRange s
      else
        let s1 = s\<lparr>m2_vel_mm_s := vel\<rparr>;
            s2 = (if m2_in_motion s1
                  then (let t = s1\<lparr>m2_freq_hz := m2_vel_mm_s s1 * M2_STEPS_PER_MM\<rparr>
                        in m2_pwm_set_frequency (m2_freq_hz t) t)
                  else s1)
        in sendResponseA (M2VelSet vel) s2)"

definition m2_check_home_stop :: "bool \<Rightarrow> axis12 \<Rightarrow> axis12" where
  "m2_check_home_stop home_pin s =
     (if m2_in_motion s \<and> \<not> m2_direction_fwd s \<and> is_m2_home_active home_pin
      then m2_stop s else s)"

definition queryStatusA :: "axis12 \<Rightarrow> axis12" where
  "queryStatusA s =
     sendResponseA (StatusA (m1_running s) (m1_rpm s) (m2_in_motion s) (m2_vel_mm_s s)
                           (m2_direction_fwd s)) s"

subsection \<open>Command dispatcher and main loop\<close>

text \<open>
  \<open>rx\<close> is \<open>None\<close> when \<^verbatim>\<open>Serial.available()\<close> is zero, otherwise the line
  \<^verbatim>\<open>readStringUntil('\n')\<close> returns. The numeric parsers \<^verbatim>\<open>String::toInt\<close> and
  \<^verbatim>\<open>String::toFloat\<close> belong to the Arduino core and are parameters. The
  assignment \<^verbatim>\<open>uint16_t rpm = arg.toInt()\<close> keeps the low 16 bits.
  \<open>home_pin\<close> is the level \<^verbatim>\<open>digitalRead(M2_HOME_PIN)\<close> returns while the command
  runs.
\<close>

definition processSerialCommandA ::
  "(string \<Rightarrow> int) \<Rightarrow> (string \<Rightarrow> real) \<Rightarrow> string option \<Rightarrow> bool \<Rightarrow> axis12 \<Rightarrow> axis12" where
  "processSerialCommandA toInt toFloat rx home_pin s =
     (case rx of
        None \<Rightarrow> s
      | Some line \<Rightarrow>
          let cmd = trim line in
          if length cmd = 0 then s
          else
            let s0 = sendResponseA (EchoA cmd) s;
                command = charAt cmd 0
            in
            if command = CHR ''i'' \<or> command = CHR ''I'' then sendResponseA IdA s0
            else if command = CHR ''?'' then queryStatusA s0
            else if command = CHR ''1'' then
              (let subcmd = charAt cmd 1; arg = substring cmd 2 in
               if subcmd = CHR ''r'' \<or> subcmd = CHR ''R''
                 then m1_set_rpm (word_of_int (toInt arg)) s0
               else if subcmd = CHR ''s'' \<or> subcmd = CHR ''S'' then m1_stop s0
               else sendResponseA ErrM1UnknownSub s0)
            else if command = CHR ''2'' then
              (let subcmd = charAt cmd 1; arg = substring cmd 2 in
               if subcmd = CHR ''f'' \<or> subcmd = CHR ''F'' then m2_feed_forward s0
               else if subcmd = CHR ''b'' \<or> subcmd = CHR ''B'' then m2_feed_reverse home_pin s0
               else if subcmd = CHR ''s'' \<or> subcmd = CHR ''S'' then m2_stop s0
               else if subcmd = CHR ''v'' \<or> subcmd = CHR ''V''
                 then m2_set_velocity (toFloat arg) s0
               else sendResponseA ErrM2UnknownSub s0)
            else sendResponseA ErrUnknownCommandA s0)"

text \<open>
  One pass of \<^verbatim>\<open>loop()\<close>. The home pin is read once inside the command (only by
  \<^verbatim>\<open>2b\<close>) and once by \<^verbatim>\<open>m2_check_home_stop\<close>; the two readings are separate
  arguments. \<open>now\<close> is \<^verbatim>\<open>millis()\<close>; \<^verbatim>\<open>unsigned long\<close> is 32 bits wide on this
  target.
\<close>

definition loopA ::
  "(string \<Rightarrow> int) \<Rightarrow> (string \<Rightarrow> real) \<Rightarrow> string option \<Rightarrow> bool \<Rightarrow> bool \<Rightarrow> 32 word
     \<Rightarrow> axis12 \<Rightarrow> axis12" where
  "loopA toInt toFloat rx home_pin_cmd home_pin_chk now s =
     (let s1 = processSerialCommandA toInt toFloat rx home_pin_cmd s;
          s2 = m2_check_home_stop home_pin_chk s1
      in if now - last_status_msA s2 \<ge> 100
         then s2\<lparr>last_status_msA := now, heartbeat_counter := heartbeat_counter s2 + 1\<rparr>
         else s2)"

text \<open>
  The state \<^verbatim>\<open>setup()\<close> leaves: both structs zeroed by \<^verbatim>\<open>memset\<close>, both timers
  initialised at 1000 Hz with duty 0 and forced low, both direction pins low.
\<close>

definition setupA :: axis12 where
  "setupA =
     \<lparr> m1_running = False, m1_rpm = 0, m1_freq_hz = 0,
       m2_in_motion = False, m2_direction_fwd = False, m2_vel_mm_s = 0, m2_freq_hz = 0,
       heartbeat_counter = 0, last_status_msA = 0,
       m1_dir_pin = (if M1_DIR_CW then True else False), m2_dir_pin = False,
       pwm0_frequency = 1000, pwm0_duty = 0, pwm0_forced_low = True,
       pwm1_frequency = 1000, pwm1_duty = 0, pwm1_forced_low = True,
       txA = [BannerA ''ESP32-A: Blade + Fixture USB Serial Controller'',
             BannerA ''Firmware v2.0'',
             BannerA ''Initialization complete'',
             BannerA ''Ready for commands (send 'I' for ID, '?' for status)''] \<rparr>"

section \<open>Binary floating point\<close>

text \<open>
  \<open>round_to p emin x\<close> is the binary floating-point number with \<open>p\<close> significant
  bits and least exponent \<open>emin\<close> that is nearest to \<open>x\<close>, a tie going to the
  even significand (the rounding of IEEE 754 arithmetic in its default mode):
  \<open>expo x\<close> is the exponent \<open>e\<close> with \<open>2^e \<le> |x| < 2^(e+1)\<close>, the spacing of the
  numbers around \<open>x\<close> is \<open>u = 2^(max e emin - (p - 1))\<close>, and \<open>x / u\<close> is rounded to
  an integer by \<open>rne\<close>. \<open>f32\<close> is binary32 (\<^verbatim>\<open>float\<close>), \<open>f64\<close> is binary64
  (\<^verbatim>\<open>double\<close>).

  An operation of the source on \<^verbatim>\<open>float\<close> operands is the exact operation
  followed by \<open>f32\<close>, one on \<^verbatim>\<open>double\<close> operands is followed by \<open>f64\<close>; each
  operation rounds on its own. A literal with suffix \<^verbatim>\<open>f\<close> is the rounded decimal.
  A conversion from \<^verbatim>\<open>float\<close> to \<^verbatim>\<open>double\<close> and a comparison are exact. There
  is no largest exponent: overflow to infinity, infinities and NaN are outside the
  model, and the two zeros are one.
\<close>

definition pow2 :: "int \<Rightarrow> real" where
  "pow2 e = (if 0 \<le> e then 2 ^ nat e else 1 / 2 ^ nat (- e))"

definition expo :: "real \<Rightarrow> int" where
  "expo x = (if 1 \<le> \<bar>x\<bar> then bitlen \<lfloor>\<bar>x\<bar>\<rfloor> - 1 else - bitlen (\<lceil>1 / \<bar>x\<bar>\<rceil> - 1))"

definition rne :: "real \<Rightarrow> int" where
  "rne y = (let f = \<lfloor>y\<rfloor>; r = y - of_int f
            in if r < 1 / 2 then f else if 1 / 2 < r then f + 1
               else if even f then f else f + 1)"

definition round_to :: "nat \<Rightarrow> int \<Rightarrow> real \<Rightarrow> real" where
  "round_to p emin x =
     (if x = 0 then 0
      else let e = max (expo x) emin; u = pow2 (e - (int p - 1))
           in of_int (rne (x / u)) * u)"

definition f32 :: "real \<Rightarrow> real" where
  "f32 = round_to 24 (- 126)"

definition f64 :: "real \<Rightarrow> real" where
  "f64 = round_to 53 (- 1022)"

section \<open>ESP32-B: positioning axis (M3) with quadrature encoder\<close>

subsection \<open>Constants\<close>

text \<open>
  The macros expand to \<^verbatim>\<open>float\<close> expressions: every literal and every operation
  in them is rounded (\<^verbatim>\<open>TEETH\<close>, an \<^verbatim>\<open>int\<close>, is converted exactly).
\<close>

definition PITCH_MM :: real where "PITCH_MM = 10"
definition TEETH :: real where "TEETH = 15"
definition CIRC_MM :: real where "CIRC_MM = f32 (PITCH_MM * TEETH)"
definition CALIBRATION_SCALE :: real where "CALIBRATION_SCALE = f32 1.005324"
definition ENCODER_PPR :: real where "ENCODER_PPR = 400"
definition COUNTS_PER_REV :: real where
  "COUNTS_PER_REV = f32 (f32 (ENCODER_PPR * 4) * CALIBRATION_SCALE)"
definition MM_PER_COUNT :: real where "MM_PER_COUNT = f32 (CIRC_MM / COUNTS_PER_REV)"
definition IN_PER_COUNT :: real where "IN_PER_COUNT = f32 (MM_PER_COUNT / f32 25.4)"
definition STEPS_PER_REV :: real where "STEPS_PER_REV = 6400"
definition STEPS_PER_MM :: real where
  "STEPS_PER_MM = f32 (f32 (STEPS_PER_REV * CALIBRATION_SCALE) / CIRC_MM)"
definition STEPS_PER_IN :: real where "STEPS_PER_IN = f32 (STEPS_PER_MM * f32 25.4)"
definition DEFAULT_VELOCITY_IPS :: real where "DEFAULT_VELOCITY_IPS = f32 0.0492"
definition POSITION_TOLERANCE_IN :: real where "POSITION_TOLERANCE_IN = f32 (f32 0.2 / f32 25.4)"
definition MAX_POSITION_ERROR_IN :: real where "MAX_POSITION_ERROR_IN = f32 0.200"
definition CORRECTION_SETTLE_MS :: nat where "CORRECTION_SETTLE_MS = 50"
definition CORRECTION_VELOCITY_SCALE :: real where "CORRECTION_VELOCITY_SCALE = f32 0.10"
definition MIN_CORRECTION_VEL_IPS :: real where "MIN_CORRECTION_VEL_IPS = f32 0.005"
definition VEL_ALPHA :: real where "VEL_ALPHA = f32 0.30"
definition STATUS_UPDATE_MS :: "32 word" where "STATUS_UPDATE_MS = 100"
definition RESET_DEBOUNCE_MS :: "32 word" where "RESET_DEBOUNCE_MS = 50"

subsection \<open>Conversions between \<^verbatim>\<open>float\<close> and \<^verbatim>\<open>int32_t\<close>\<close>

text \<open>
  A C cast from a floating value to an integer type discards the fraction (rounds
  towards zero). The cast is undefined when the integer part does not fit the
  type: \<open>int32_of_real\<close> gives \<open>INT32_MIN\<close> there, and \<open>uint32_of_real\<close> keeps the
  low 32 bits (its one use, in \<^verbatim>\<open>updateTimerFrequency\<close>, is within range). The
  conversion of an \<^verbatim>\<open>int32_t\<close> or an \<^verbatim>\<open>uint32_t\<close> to \<^verbatim>\<open>float\<close> rounds to
  binary32.
\<close>

definition trunc_real :: "real \<Rightarrow> int" where
  "trunc_real x = (if x < 0 then - \<lfloor>- x\<rfloor> else \<lfloor>x\<rfloor>)"

definition int32_of_real :: "real \<Rightarrow> 32 word" where
  "int32_of_real x =
     (if - 2147483648 \<le> trunc_real x \<and> trunc_real x \<le> 2147483647
      then word_of_int (trunc_real x) else - 2147483648)"

definition uint32_of_real :: "real \<Rightarrow> 32 word" where
  "uint32_of_real x = word_of_int (trunc_real x)"

definition real_of_int32 :: "32 word \<Rightarrow> real" where
  "real_of_int32 w = f32 (real_of_int (sint w))"

definition real_of_uint32 :: "32 word \<Rightarrow> real" where
  "real_of_uint32 w = f32 (real (unat w))"

text \<open>\<^verbatim>\<open>abs\<close> on \<^verbatim>\<open>int32_t\<close>: the negation wraps at \<open>INT32_MIN\<close>.\<close>

definition abs32 :: "32 word \<Rightarrow> 32 word" where
  "abs32 x = (if x <s 0 then - x else x)"

subsection \<open>State\<close>

datatype responseB =
    BannerB string
  | EchoB string
  | AtTarget real
  | AtTargetErr real real
  | ErrPositionTooLarge real real real
  | Correcting real real
  | IdB
  | ErrUnknownCommandB
  | Pos real real "32 word" "32 word"
  | PosOpen real "32 word"
  | MovingEnc real real
  | Moving real real
  | Homed
  | StoppedEnc real real
  | Stopped real
  | ErrVelocity
  | Velocity real
  | EncoderReset
  | StatusEnc bool real "32 word" real "32 word" real real real
  | StatusOpen bool real "32 word" real real

text \<open>
  The structs \<^verbatim>\<open>encoder\<close>, \<^verbatim>\<open>motor\<close> and \<^verbatim>\<open>reset_button\<close> and the global
  \<^verbatim>\<open>last_status_ms\<close>; field \<^verbatim>\<open>motor.in_motion\<close> is \<open>motor_in_motion\<close>, and
  so on (\<^verbatim>\<open>long\<close> is 32 bits wide on this target). Then what the code drives: the
  levels of the STEP and DIR pins, the alarm value written to the hardware timer,
  and the milliseconds spent so far inside \<^verbatim>\<open>delay()\<close>.
\<close>

record backstop =
  encoder_detected :: bool
  encoder_counts :: "32 word"
  encoder_last_ab :: "8 word"
  encoder_last_counts :: "32 word"
  encoder_last_delta_counts :: "32 word"
  encoder_position_in :: real
  encoder_velocity_ips :: real
  encoder_velocity_ema_ips :: real
  encoder_last_vel_ms :: "32 word"
  motor_target_steps :: "32 word"
  motor_current_steps :: "32 word"
  motor_velocity_ips :: real
  motor_base_velocity_ips :: real
  motor_in_motion :: bool
  motor_direction :: bool
  motor_step_pin_state :: bool
  motor_step_interval_us :: "32 word"
  motor_pulse_counter :: "32 word"
  motor_motion_complete_flag :: bool
  motor_target_position_in :: real
  motor_closed_loop_enabled :: bool
  reset_button_last_level :: bool
  reset_button_triggered :: bool
  reset_button_last_edge_ms :: "32 word"
  last_status_msB :: "32 word"
  step_pin :: bool
  dir_pin :: bool
  timer_alarm :: "32 word"
  delayed_ms :: nat
  txB :: "responseB list"

definition sendResponseB :: "responseB \<Rightarrow> backstop \<Rightarrow> backstop" where
  "sendResponseB msg s = s\<lparr>txB := txB s @ [msg]\<rparr>"

definition delay :: "nat \<Rightarrow> backstop \<Rightarrow> backstop" where
  "delay ms s = s\<lparr>delayed_ms := delayed_ms s + ms\<rparr>"

subsection \<open>Helpers\<close>

definition syncMotorStepsWithEncoder :: "backstop \<Rightarrow> backstop" where
  "syncMotorStepsWithEncoder s =
     (if \<not> encoder_detected s then s
      else
        let synced_steps = int32_of_real (f32 (encoder_position_in s * STEPS_PER_IN))
        in s\<lparr>motor_current_steps := synced_steps\<rparr>)"

text \<open>
  \<^verbatim>\<open>step_rate\<close> is a \<^verbatim>\<open>float\<close>; the comparison with \<^verbatim>\<open>10.0\<close> and the
  division of \<^verbatim>\<open>1000000.0\<close> by it are done in \<^verbatim>\<open>double\<close>.
\<close>

definition updateTimerFrequency :: "backstop \<Rightarrow> backstop" where
  "updateTimerFrequency s =
     (let step_rate0 = f32 (motor_velocity_ips s * STEPS_PER_IN);
          step_rate = (if step_rate0 < 10 then 10 else step_rate0);
          s1 = s\<lparr>motor_step_interval_us := uint32_of_real (f64 (1000000 / step_rate))\<rparr>
      in s1\<lparr>timer_alarm := motor_step_interval_us s1 div 2\<rparr>)"

subsection \<open>Timer interrupt service routine\<close>

definition onTimer :: "backstop \<Rightarrow> backstop" where
  "onTimer s =
     (if motor_in_motion s then
        let error_steps = motor_target_steps s - motor_current_steps s in
        if abs32 error_steps \<le>s int32_of_real (f32 (POSITION_TOLERANCE_IN * STEPS_PER_IN)) then
          s\<lparr>motor_in_motion := False, motor_motion_complete_flag := True, step_pin := False\<rparr>
        else if \<not> motor_step_pin_state s then
          s\<lparr>step_pin := True, motor_step_pin_state := True, motor_pulse_counter := 0\<rparr>
        else
          let s1 = s\<lparr>motor_pulse_counter := motor_pulse_counter s + 1\<rparr> in
          if motor_pulse_counter s1 \<ge> 1 then
            let s2 = s1\<lparr>step_pin := False, motor_step_pin_state := False\<rparr> in
            if motor_direction s2
            then s2\<lparr>motor_current_steps := motor_current_steps s2 + 1\<rparr>
            else s2\<lparr>motor_current_steps := motor_current_steps s2 - 1\<rparr>
          else s1
      else s)"

subsection \<open>Quadrature decoder\<close>

definition quad_table :: "int list" where
  "quad_table = [ 0, -1,  1,  0,
                  1,  0,  0, -1,
                 -1,  0,  0,  1,
                  0,  1, -1,  0]"

text \<open>
  \<^verbatim>\<open>digitalRead\<close> returns 0 or 1. The two shifts are done in \<^verbatim>\<open>int\<close> and stored
  into an \<^verbatim>\<open>uint8_t\<close>. The table is read at \<open>idx\<close> without a bounds check; the
  model's value beyond the sixteenth entry is the unspecified one of \<open>!\<close>.
\<close>

definition pin_level :: "bool \<Rightarrow> 8 word" where
  "pin_level v = (if v then 1 else 0)"

definition ab_code :: "bool \<Rightarrow> bool \<Rightarrow> 8 word" where
  "ab_code a b = (push_bit 1 (pin_level a)) OR (pin_level b)"

definition handleEncoderChange :: "bool \<Rightarrow> bool \<Rightarrow> backstop \<Rightarrow> backstop" where
  "handleEncoderChange a b s =
     (let curr = ab_code a b;
          idx = (push_bit 2 (encoder_last_ab s)) OR curr
      in s\<lparr>encoder_counts := encoder_counts s + word_of_int (quad_table ! unat idx),
            encoder_last_ab := curr\<rparr>)"

subsection \<open>Encoder functions\<close>

definition readEncoderCount :: "backstop \<Rightarrow> 32 word" where
  "readEncoderCount s = encoder_counts s"

definition resetEncoderCount :: "backstop \<Rightarrow> backstop" where
  "resetEncoderCount s = s\<lparr>encoder_counts := 0, encoder_last_counts := 0\<rparr>"

definition updateEncoder :: "32 word \<Rightarrow> backstop \<Rightarrow> backstop" where
  "updateEncoder now s =
     (if \<not> encoder_detected s then s
      else
        let current_count = readEncoderCount s;
            delta = current_count - encoder_last_counts s;
            s1 = s\<lparr>encoder_last_counts := current_count,
                   encoder_last_delta_counts := delta,
                   encoder_position_in := f32 (real_of_int32 current_count * IN_PER_COUNT)\<rparr>
        in
        if now \<noteq> encoder_last_vel_ms s1 then
          let dt = f32 (real_of_uint32 (now - encoder_last_vel_ms s1) / 1000);
              s2 = s1\<lparr>encoder_last_vel_ms := now\<rparr>
          in
          if dt > 0 then
            let s3 = s2\<lparr>encoder_velocity_ips :=
                          f32 (f32 (real_of_int32 (encoder_last_delta_counts s2) * IN_PER_COUNT)
                               / dt)\<rparr>
            in s3\<lparr>encoder_velocity_ema_ips :=
                      f32 (f32 (VEL_ALPHA * encoder_velocity_ips s3)
                           + f32 (f32 (1 - VEL_ALPHA) * encoder_velocity_ema_ips s3))\<rparr>
          else s2
        else s1)"

definition resetEncoder :: "backstop \<Rightarrow> backstop" where
  "resetEncoder s =
     (let s1 = resetEncoderCount s;
          s2 = s1\<lparr>encoder_velocity_ips := 0\<rparr>;
          s3 = s2\<lparr>encoder_velocity_ema_ips := 0\<rparr>;
          s4 = s3\<lparr>encoder_position_in := 0\<rparr>
      in sendResponseB EncoderReset s4)"

subsection \<open>Reset button\<close>

definition updateResetButton :: "32 word \<Rightarrow> bool \<Rightarrow> backstop \<Rightarrow> backstop" where
  "updateResetButton now level s =
     (let s1 = (if level \<noteq> reset_button_last_level s then
                  let t = s\<lparr>reset_button_last_edge_ms := now, reset_button_last_level := level\<rparr>
                  in (if level = True then t\<lparr>reset_button_triggered := False\<rparr> else t)
                else s)
      in
      if \<not> reset_button_triggered s1 \<and> level = False
         \<and> (now - reset_button_last_edge_ms s1) > RESET_DEBOUNCE_MS
      then (resetEncoder s1)\<lparr>reset_button_triggered := True\<rparr>
      else s1)"

subsection \<open>Motion control functions\<close>

definition stop :: "backstop \<Rightarrow> backstop" where
  "stop s =
     (let s1 = s\<lparr>motor_in_motion := False\<rparr>;
          motor_pos_in = f32 (real_of_int32 (motor_current_steps s1) / STEPS_PER_IN)
      in if encoder_detected s1
         then sendResponseB (StoppedEnc motor_pos_in (encoder_position_in s1)) s1
         else sendResponseB (Stopped motor_pos_in) s1)"

definition gotoPosition :: "real \<Rightarrow> backstop \<Rightarrow> backstop" where
  "gotoPosition position_in s =
     (let s1 = s\<lparr>motor_target_position_in := position_in\<rparr>;
          actual_pos = (if encoder_detected s1 then encoder_position_in s1
                        else f32 (real_of_int32 (motor_current_steps s1) / STEPS_PER_IN));
          s2 = (if encoder_detected s1 then syncMotorStepsWithEncoder s1 else s1);
          error_in = f32 (position_in - actual_pos)
      in
      if \<bar>error_in\<bar> \<le> POSITION_TOLERANCE_IN then sendResponseB (AtTarget actual_pos) s2
      else
        let s3 = s2\<lparr>motor_target_steps :=
                       motor_current_steps s2
                       + int32_of_real (f32 (error_in * STEPS_PER_IN))\<rparr>;
            s4 = (if error_in > 0 then s3\<lparr>motor_direction := True, dir_pin := True\<rparr>
                  else s3\<lparr>motor_direction := False, dir_pin := False\<rparr>);
            s5 = updateTimerFrequency s4;
            s6 = s5\<lparr>motor_in_motion := True\<rparr>;
            current_in = f32 (real_of_int32 (motor_current_steps s6) / STEPS_PER_IN)
        in if encoder_detected s6
           then sendResponseB (MovingEnc (encoder_position_in s6) position_in) s6
           else sendResponseB (Moving current_in position_in) s6)"

definition home :: "backstop \<Rightarrow> backstop" where
  "home s =
     (let s1 = s\<lparr>motor_current_steps := 0\<rparr>;
          s2 = s1\<lparr>motor_target_steps := 0\<rparr>;
          s3 = s2\<lparr>motor_target_position_in := 0\<rparr>;
          s4 = s3\<lparr>motor_in_motion := False\<rparr>;
          s5 = (if encoder_detected s4 then syncMotorStepsWithEncoder s4 else s4);
          s6 = resetEncoder s5
      in sendResponseB Homed s6)"

definition setVelocity :: "real \<Rightarrow> backstop \<Rightarrow> backstop" where
  "setVelocity vel_ips s =
     (if vel_ips \<le> 0 then sendResponseB ErrVelocity s
      else
        let s1 = s\<lparr>motor_base_velocity_ips := vel_ips\<rparr>;
            s2 = s1\<lparr>motor_velocity_ips := vel_ips\<rparr>;
            s3 = (if motor_in_motion s2 then updateTimerFrequency s2 else s2)
        in sendResponseB (Velocity vel_ips) s3)"

definition queryStatusB :: "backstop \<Rightarrow> backstop" where
  "queryStatusB s =
     (let motor_pos_in = f32 (real_of_int32 (motor_current_steps s) / STEPS_PER_IN) in
      if encoder_detected s then
        let error_in = f32 (encoder_position_in s - motor_pos_in)
        in sendResponseB (StatusEnc (motor_in_motion s) motor_pos_in (motor_current_steps s)
                            (encoder_position_in s) (readEncoderCount s) error_in
                            (motor_velocity_ips s) (motor_target_position_in s)) s
      else
        sendResponseB (StatusOpen (motor_in_motion s) motor_pos_in (motor_current_steps s)
                         (motor_velocity_ips s) (motor_target_position_in s)) s)"

definition sendStatusUpdate :: "backstop \<Rightarrow> backstop" where
  "sendStatusUpdate s =
     (if encoder_detected s
      then sendResponseB (Pos (encoder_position_in s) (encoder_velocity_ema_ips s)
                              (readEncoderCount s) (motor_current_steps s)) s
      else
        let pos_in = f32 (real_of_int32 (motor_current_steps s) / STEPS_PER_IN)
        in sendResponseB (PosOpen pos_in (motor_current_steps s)) s)"

subsection \<open>Closed-loop position correction\<close>

definition closedLoopCorrection :: "backstop \<Rightarrow> backstop" where
  "closedLoopCorrection s =
     (let s0 = (if CORRECTION_SETTLE_MS > 0 then delay CORRECTION_SETTLE_MS s else s);
          actual_pos = encoder_position_in s0;
          error_in = f32 (motor_target_position_in s0 - actual_pos)
      in
      if \<bar>error_in\<bar> \<le> POSITION_TOLERANCE_IN then
        sendResponseB (AtTargetErr actual_pos error_in) s0
      else if \<bar>error_in\<bar> > MAX_POSITION_ERROR_IN then
        stop (sendResponseB
                (ErrPositionTooLarge error_in (motor_target_position_in s0) actual_pos) s0)
      else
        let s1 = syncMotorStepsWithEncoder s0;
            s2 = sendResponseB (Correcting error_in (motor_target_position_in s1)) s1;
            correction_steps = int32_of_real (f32 (error_in * STEPS_PER_IN));
            s3 = s2\<lparr>motor_target_steps := motor_current_steps s2 + correction_steps\<rparr>;
            s4 = (if 0 <s correction_steps
                  then s3\<lparr>motor_direction := True, dir_pin := True\<rparr>
                  else s3\<lparr>motor_direction := False, dir_pin := False\<rparr>);
            s5 = s4\<lparr>motor_velocity_ips := motor_base_velocity_ips s4\<rparr>;
            correction_vel0 = f32 (motor_base_velocity_ips s5 * CORRECTION_VELOCITY_SCALE);
            correction_vel = (if correction_vel0 < MIN_CORRECTION_VEL_IPS
                              then MIN_CORRECTION_VEL_IPS else correction_vel0);
            s6 = s5\<lparr>motor_velocity_ips := correction_vel\<rparr>;
            s7 = updateTimerFrequency s6
        in s7\<lparr>motor_in_motion := True\<rparr>)"

subsection \<open>Command dispatcher, main loop and start-up\<close>

definition processSerialCommandB ::
  "(string \<Rightarrow> real) \<Rightarrow> string option \<Rightarrow> backstop \<Rightarrow> backstop" where
  "processSerialCommandB toFloat rx s =
     (case rx of
        None \<Rightarrow> s
      | Some line \<Rightarrow>
          let cmd = trim line in
          if length cmd = 0 then s
          else
            let s0 = sendResponseB (EchoB cmd) s;
                command = charAt cmd 0;
                arg = substring cmd 1
            in
            if command = CHR ''g'' \<or> command = CHR ''G'' then gotoPosition (toFloat arg) s0
            else if command = CHR ''h'' \<or> command = CHR ''H'' then home s0
            else if command = CHR ''s'' \<or> command = CHR ''S'' then stop s0
            else if command = CHR ''v'' \<or> command = CHR ''V'' then setVelocity (toFloat arg) s0
            else if command = CHR ''r'' \<or> command = CHR ''R'' then resetEncoder s0
            else if command = CHR ''i'' \<or> command = CHR ''I'' then sendResponseB IdB s0
            else if command = CHR ''?'' then queryStatusB s0
            else sendResponseB ErrUnknownCommandB s0)"

text \<open>
  \<open>toFloat\<close> stands for \<^verbatim>\<open>String::toFloat\<close>, which returns a \<^verbatim>\<open>float\<close>.

  One pass of \<^verbatim>\<open>loop()\<close>. \<^verbatim>\<open>millis()\<close> is read three times (by \<^verbatim>\<open>loop\<close>,
  by \<^verbatim>\<open>updateEncoder\<close> and by \<^verbatim>\<open>updateResetButton\<close>): \<open>now\<close>, \<open>now_enc\<close>
  and \<open>now_btn\<close>. \<open>reset_level\<close> is the level of the reset button pin.
\<close>

definition loopB ::
  "(string \<Rightarrow> real) \<Rightarrow> 32 word \<Rightarrow> 32 word \<Rightarrow> 32 word \<Rightarrow> bool \<Rightarrow> string option
     \<Rightarrow> backstop \<Rightarrow> backstop" where
  "loopB toFloat now now_enc now_btn reset_level rx s =
     (let s1 = updateEncoder now_enc s;
          s2 = updateResetButton now_btn reset_level s1;
          s3 = (if motor_motion_complete_flag s2 then
                  let t = s2\<lparr>motor_motion_complete_flag := False\<rparr> in
                  if motor_closed_loop_enabled t then closedLoopCorrection t
                  else
                    let pos_in = f32 (real_of_int32 (motor_current_steps t) / STEPS_PER_IN)
                    in sendResponseB (AtTarget pos_in) t
                else s2);
          s4 = (if now - last_status_msB s3 \<ge> STATUS_UPDATE_MS
                then sendStatusUpdate (s3\<lparr>last_status_msB := now\<rparr>)
                else s3);
          s5 = processSerialCommandB toFloat rx s4
      in delay 2 s5)"

text \<open>
  The state \<^verbatim>\<open>setup()\<close> leaves. \<open>enc_a\<close>, \<open>enc_b\<close> and \<open>reset_level\<close> are the
  pin levels it reads, \<open>t_enc\<close> and \<open>t_btn\<close> its two readings of \<^verbatim>\<open>millis()\<close>.
  \<^verbatim>\<open>initInterruptEncoder\<close> returns \<^verbatim>\<open>true\<close> on every path. The banner lines are
  kept as their format strings.
\<close>

definition initInterruptEncoder :: bool where
  "initInterruptEncoder = True"

definition setupB :: "bool \<Rightarrow> bool \<Rightarrow> bool \<Rightarrow> 32 word \<Rightarrow> 32 word \<Rightarrow> backstop" where
  "setupB enc_a enc_b reset_level t_enc t_btn =
     (let detected = initInterruptEncoder;
          s = \<lparr> encoder_detected = detected,
                encoder_counts = 0,
                encoder_last_ab = ab_code enc_a enc_b,
                encoder_last_counts = 0,
                encoder_last_delta_counts = 0,
                encoder_position_in = 0,
                encoder_velocity_ips = 0,
                encoder_velocity_ema_ips = 0,
                encoder_last_vel_ms = t_enc,
                motor_target_steps = 0,
                motor_current_steps = 0,
                motor_velocity_ips = DEFAULT_VELOCITY_IPS,
                motor_base_velocity_ips = DEFAULT_VELOCITY_IPS,
                motor_in_motion = False,
                motor_direction = True,
                motor_step_pin_state = False,
                motor_step_interval_us = 0,
                motor_pulse_counter = 0,
                motor_motion_complete_flag = False,
                motor_target_position_in = 0,
                motor_closed_loop_enabled = detected,
                reset_button_last_level = reset_level,
                reset_button_triggered = False,
                reset_button_last_edge_ms = t_btn,
                last_status_msB = 0,
                step_pin = False,
                dir_pin = False,
                timer_alarm = 0,
                delayed_ms = 500,
                txB = [BannerB ''========================================'',
                       BannerB ''ESP32B Firmware v9.1 - Interrupt Encoder'',
                       BannerB ''========================================'',
                       BannerB ''Interrupt-based Encoder: DETECTED'',
                       BannerB ''Resolution: %.0f counts/rev (4x quadrature)''] \<rparr>;
          s1 = (if \<not> encoder_detected s
                then sendResponseB (BannerB ''Interrupt Encoder: INIT FAILED (open-loop mode)'') s
                else s);
          s2 = updateTimerFrequency s1
      in s2\<lparr>txB := txB s2 @
             [BannerB ''Pulley: %dT x %.1fmm = %.1fmm/rev'',
              BannerB ''Resolution: %.5f in/count'',
              BannerB ''Motor: %.1f steps/mm, %.1f steps/in'',
              BannerB ''Default velocity: %.2f in/s'',
              BannerB ''Closed-loop: %s'',
              BannerB ''========================================'',
              BannerB ''Commands: g<pos>, h, s, v<vel>, r, ?'',
              BannerB ''========================================'',
              BannerB ''READY'']\<rparr>)"

subsection \<open>Reachable states\<close>

text \<open>
  The states the firmware can be in between handlers: the state after
  \<^verbatim>\<open>setup()\<close>, followed by any interleaving of timer ticks, encoder edges and
  passes of \<^verbatim>\<open>loop()\<close>, under any inputs.
\<close>

inductive reachableB :: "backstop \<Rightarrow> bool" where
  init: "reachableB (setupB enc_a enc_b reset_level t_enc t_btn)"
| tick: "reachableB s \<Longrightarrow> reachableB (onTimer s)"
| edge: "reachableB s \<Longrightarrow> reachableB (handleEncoderChange a b s)"
| pass: "reachableB s \<Longrightarrow> reachableB (loopB toFloat now now_enc now_btn reset_level rx s)"

section \<open>Auxiliary predicates used in the statements\<close>

text \<open>The received line is dispatched to \<^verbatim>\<open>m2_feed_forward\<close> (\<^verbatim>\<open>2f\<close> or \<^verbatim>\<open>2F\<close>).\<close>

definition is_feed_forward_line :: "string option \<Rightarrow> bool" where
  "is_feed_forward_line rx =
     (case rx of None \<Rightarrow> False
      | Some line \<Rightarrow> charAt (trim line) 0 = CHR ''2''
                     \<and> (charAt (trim line) 1 = CHR ''f'' \<or> charAt (trim line) 1 = CHR ''F''))"

subsection \<open>Quadrature decoding, stated without the table\<close>

text \<open>
  The levels of channel A and B that the decoder stored at the previous edge: bit 1
  and bit 0 of \<^verbatim>\<open>encoder.last_ab\<close>.
\<close>

definition last_a :: "backstop \<Rightarrow> bool" where
  "last_a s = (encoder_last_ab s AND 2 \<noteq> 0)"

definition last_b :: "backstop \<Rightarrow> bool" where
  "last_b s = (encoder_last_ab s AND 1 \<noteq> 0)"

text \<open>
  A transition from levels \<open>(a0, b0)\<close> to \<open>(a, b)\<close> is a valid quadrature edge when
  exactly one channel changed. A valid edge counts \<open>+1\<close> when the new level of A
  differs from the old level of B, and \<open>-1\<close> otherwise; a transition in which no
  channel or both channels changed counts 0.
\<close>

definition one_channel_changed :: "bool \<Rightarrow> bool \<Rightarrow> bool \<Rightarrow> bool \<Rightarrow> bool" where
  "one_channel_changed a0 b0 a b = ((a0 \<noteq> a) \<noteq> (b0 \<noteq> b))"

definition quad_step :: "bool \<Rightarrow> bool \<Rightarrow> bool \<Rightarrow> bool \<Rightarrow> int" where
  "quad_step a0 b0 a b =
     (if one_channel_changed a0 b0 a b then (if a \<noteq> b0 then 1 else - 1) else 0)"

text \<open>
  A sequence of edge events, each given by the two levels read: the increments it
  decodes to, the number of valid edges in it, and the state after the interrupt
  handler has run on each.
\<close>

fun edge_steps :: "bool \<Rightarrow> bool \<Rightarrow> (bool \<times> bool) list \<Rightarrow> int list" where
  "edge_steps a0 b0 [] = []"
| "edge_steps a0 b0 ((a, b) # es) = quad_step a0 b0 a b # edge_steps a b es"

fun valid_edges :: "bool \<Rightarrow> bool \<Rightarrow> (bool \<times> bool) list \<Rightarrow> nat" where
  "valid_edges a0 b0 [] = 0"
| "valid_edges a0 b0 ((a, b) # es) =
     (if one_channel_changed a0 b0 a b then 1 else 0) + valid_edges a b es"

fun run_edges :: "(bool \<times> bool) list \<Rightarrow> backstop \<Rightarrow> backstop" where
  "run_edges [] s = s"
| "run_edges ((a, b) # es) s = run_edges es (handleEncoderChange a b s)"

subsection \<open>Invariant of the reachable states\<close>

text \<open>
  The fields that only \<^verbatim>\<open>setup()\<close> and the two interrupt handlers write, and what
  holds of them in every reachable state: the encoder is detected and closed-loop
  correction is enabled, \<^verbatim>\<open>last_ab\<close> is a two-bit code, and the pulse counter is 0
  while the pulse is in its high phase.
\<close>

definition isr_view :: "backstop \<Rightarrow> bool \<times> bool \<times> 8 word \<times> bool \<times> 32 word" where
  "isr_view s = (encoder_detected s, motor_closed_loop_enabled s, encoder_last_ab s,
                 motor_step_pin_state s, motor_pulse_counter s)"

definition invB :: "backstop \<Rightarrow> bool" where
  "invB s = (encoder_detected s \<and> motor_closed_loop_enabled s
             \<and> encoder_last_ab s = ab_code (last_a s) (last_b s)
             \<and> (motor_step_pin_state s \<longrightarrow> motor_pulse_counter s = 0))"

subsection \<open>Example runs\<close>

text \<open>
  \<open>toFloat_ex\<close> stands for \<^verbatim>\<open>String::toFloat\<close> on the argument texts the
  examples send: the binary32 number nearest to the decimal. \<open>ex_idle\<close>: after
  start-up with both encoder channels low and the reset button released;
  \<open>boot_lines\<close> are the lines printed by then. \<open>ex_goto line\<close>: after one pass of
  the loop that receives \<open>line\<close>. \<open>ex_high\<close>: one timer tick into a move to
  1 inch. \<open>ex_stopped\<close>: after a pass that then receives \<^verbatim>\<open>s\<close>. \<open>ex_turned\<close>:
  after four forward encoder edges from idle. \<open>ex_homed\<close>: after a pass that then
  receives \<^verbatim>\<open>h\<close>.
\<close>

definition toFloat_ex :: "string \<Rightarrow> real" where
  "toFloat_ex arg =
     (if arg = ''1'' then f32 1
      else if arg = ''0.2'' then f32 0.2
      else if arg = ''0.008'' then f32 0.008
      else if arg = ''0.103717'' then f32 0.103717
      else if arg = ''0.20000002'' then f32 0.20000002
      else 0)"

definition ex_idle :: backstop where
  "ex_idle = setupB False False True 0 0"

definition boot_lines :: "responseB list" where
  "boot_lines = txB ex_idle"

definition ex_goto :: "string \<Rightarrow> backstop" where
  "ex_goto line = loopB toFloat_ex 0 0 0 True (Some line) ex_idle"

definition ex_high :: backstop where
  "ex_high = onTimer (ex_goto ''g1'')"

definition ex_stopped :: backstop where
  "ex_stopped = loopB toFloat_ex 0 0 0 True (Some ''s'') ex_high"

definition ex_turned :: backstop where
  "ex_turned = run_edges [(True, False), (True, True), (False, True), (False, False)] ex_idle"

definition ex_homed :: backstop where
  "ex_homed = loopB toFloat_ex 0 0 0 True (Some ''h'') ex_turned"

section \<open>Properties of the ESP32-A controller\<close>

lemmas A_defs = m1_set_rpm_def m1_stop_def m2_feed_forward_def m2_feed_reverse_def m2_stop_def
  m2_set_velocity_def m2_check_home_stop_def queryStatusA_def sendResponseA_def
  m1_pwm_set_frequency_def m1_pwm_enable_def m2_pwm_set_frequency_def m2_pwm_enable_def
  is_m2_home_active_def Let_def

lemmas A_consts = M1_PULSES_PER_REV_def MAX_FREQ_HZ_def MIN_FREQ_HZ_def M2_STEPS_PER_MM_def
  PWM_DUTY_CYCLE_def M2_DIR_FWD_def M1_DIR_CW_def

subsection \<open>M1 speed command\<close>

lemma m1_raw_freq_lower:
  fixes rpm :: "16 word"
  assumes "100 \<le> rpm"
  shows "1 \<le> real (unat rpm) * 22333 / 60"
proof -
  have "100 \<le> unat rpm" using assms by (simp add: word_le_nat_alt)
  then have "real 100 \<le> real (unat rpm)" by (rule of_nat_mono)
  then show ?thesis by simp
qed

text \<open>
  C7, as stated, at \<open>rpm = 100\<close>: the frequency handed to the PWM peripheral is the
  whole number 37221, while \<open>100 \<times> 22333 / 60\<close> clamped into \<open>[1, 375000]\<close> is
  \<open>37221.66\<dots>\<close>; \<^verbatim>\<open>m1_pwm_set_frequency\<close> passes \<^verbatim>\<open>(uint32_t)freq_hz\<close>.
\<close>

theorem C7_programmed_frequency_counterexample:
  "real (pwm0_frequency (m1_set_rpm 100 setupA)) \<noteq>
     max MIN_FREQ_HZ (min MAX_FREQ_HZ (real (unat (100 :: 16 word)) * M1_PULSES_PER_REV / 60))"
  by (simp add: A_defs A_consts clamp_freq_def setupA_def)

text \<open>
  C7 (amended): for every accepted M1 speed command with \<open>100 \<le> rpm \<le> 6000\<close>, the
  stored frequency \<open>m1.freq_hz\<close> equals \<open>rpm \<times> 22333 / 60\<close> clamped into
  \<open>[MIN_FREQ_HZ, MAX_FREQ_HZ]\<close>, the frequency programmed into the PWM timer is the
  integer part of that value, the 50 % pulse train is enabled, and the response line
  carries the accepted rpm and the clamped frequency.
\<close>

theorem C7_m1_set_rpm_frequency:
  fixes rpm :: "16 word"
  assumes "100 \<le> rpm" and "rpm \<le> 6000"
  shows "let f = max MIN_FREQ_HZ (min MAX_FREQ_HZ (real (unat rpm) * M1_PULSES_PER_REV / 60));
             s' = m1_set_rpm rpm s
         in m1_rpm s' = rpm \<and> m1_freq_hz s' = f \<and> pwm0_frequency s' = nat \<lfloor>f\<rfloor>
            \<and> pwm0_duty s' = PWM_DUTY_CYCLE \<and> \<not> pwm0_forced_low s' \<and> m1_running s'
            \<and> txA s' = txA s @ [M1Run rpm f]"
proof -
  have r: "\<not> (rpm < 100 \<or> rpm > 6000)" using assms by (simp add: not_less)
  have lo: "1 \<le> real (unat rpm) * 22333 / 60" using assms(1) by (rule m1_raw_freq_lower)
  show ?thesis
    using lo by (simp add: A_defs A_consts clamp_freq_def r max_def min_def)
qed

theorem C7_m1_set_rpm_frequency_witness:
  "(100 :: 16 word) \<le> 3500 \<and> (3500 :: 16 word) \<le> 6000
   \<and> max MIN_FREQ_HZ (min MAX_FREQ_HZ (real (unat (3500 :: 16 word)) * M1_PULSES_PER_REV / 60))
       = MAX_FREQ_HZ
   \<and> m1_rpm (m1_set_rpm 3500 setupA) = 3500
   \<and> m1_freq_hz (m1_set_rpm 3500 setupA) = 375000
   \<and> pwm0_frequency (m1_set_rpm 3500 setupA) = 375000
   \<and> txA (m1_set_rpm 3500 setupA) = txA setupA @ [M1Run 3500 375000]"
  using C7_m1_set_rpm_frequency [of 3500 setupA]
  by (simp add: A_consts Let_def)

subsection \<open>Range checks of the speed commands\<close>

text \<open>The range checks of the two speed commands, for every argument and state.\<close>

lemma speed_range_checks:
  fixes rpm :: "16 word" and vel :: real
  shows "(rpm < 100 \<or> 6000 < rpm
          \<longrightarrow> m1_set_rpm rpm s = s\<lparr>txA := txA s @ [ErrM1RpmRange]\<rparr>)
   \<and> (100 \<le> rpm \<and> rpm \<le> 6000
          \<longrightarrow> m1_rpm (m1_set_rpm rpm s) = rpm \<and> m1_running (m1_set_rpm rpm s)
              \<and> \<not> pwm0_forced_low (m1_set_rpm rpm s)
              \<and> txA (m1_set_rpm rpm s)
                  = txA s @ [M1Run rpm (min MAX_FREQ_HZ (real (unat rpm) * M1_PULSES_PER_REV / 60))])
   \<and> (vel < 1 \<or> 400 < vel
          \<longrightarrow> m2_set_velocity vel s = s\<lparr>txA := txA s @ [ErrM2VelRange]\<rparr>)
   \<and> (1 \<le> vel \<and> vel \<le> 400
          \<longrightarrow> m2_vel_mm_s (m2_set_velocity vel s) = vel
              \<and> m2_in_motion (m2_set_velocity vel s) = m2_in_motion s
              \<and> txA (m2_set_velocity vel s) = txA s @ [M2VelSet vel])"
proof (intro conjI impI)
  assume "rpm < 100 \<or> 6000 < rpm"
  then show "m1_set_rpm rpm s = s\<lparr>txA := txA s @ [ErrM1RpmRange]\<rparr>"
    by (simp add: m1_set_rpm_def sendResponseA_def)
next
  assume a: "100 \<le> rpm \<and> rpm \<le> 6000"
  then have r: "\<not> (rpm < 100 \<or> rpm > 6000)" by (simp add: not_less)
  show "m1_rpm (m1_set_rpm rpm s) = rpm"
    using r by (simp add: A_defs)
  show "m1_running (m1_set_rpm rpm s)"
    using r by (simp add: A_defs)
  show "\<not> pwm0_forced_low (m1_set_rpm rpm s)"
    using r by (simp add: A_defs)
  show "txA (m1_set_rpm rpm s)
          = txA s @ [M1Run rpm (min MAX_FREQ_HZ (real (unat rpm) * M1_PULSES_PER_REV / 60))]"
    using r by (simp add: A_defs min_def)
next
  assume "vel < 1 \<or> 400 < vel"
  then show "m2_set_velocity vel s = s\<lparr>txA := txA s @ [ErrM2VelRange]\<rparr>"
    by (simp add: m2_set_velocity_def sendResponseA_def)
next
  assume a: "1 \<le> vel \<and> vel \<le> 400"
  then have r: "\<not> (vel < 1 \<or> vel > 400)" by (simp add: not_less)
  show "m2_vel_mm_s (m2_set_velocity vel s) = vel"
    using r by (simp add: A_defs)
  show "m2_in_motion (m2_set_velocity vel s) = m2_in_motion s"
    using r by (simp add: A_defs)
  show "txA (m2_set_velocity vel s) = txA s @ [M2VelSet vel]"
    using r by (simp add: A_defs)
qed

text \<open>
  C8: an M1 rpm of 100 or 6000 and an M2 velocity of 1.0 or 400.0 mm/s are accepted
  (the value is stored and the confirmation line is sent); an rpm of 99 or 6001 and
  a velocity of 0.0 or 401.0 produce the range error and leave every field of the
  state as it was: only the error line is added to the transmit log. The same holds
  of every argument inside, respectively outside, the two ranges.
\<close>

theorem C8_speed_range_boundaries:
  fixes rpm :: "16 word" and vel :: real
  shows "m1_set_rpm 99 s = s\<lparr>txA := txA s @ [ErrM1RpmRange]\<rparr>
   \<and> m1_set_rpm 6001 s = s\<lparr>txA := txA s @ [ErrM1RpmRange]\<rparr>
   \<and> m2_set_velocity 0 s = s\<lparr>txA := txA s @ [ErrM2VelRange]\<rparr>
   \<and> m2_set_velocity 401 s = s\<lparr>txA := txA s @ [ErrM2VelRange]\<rparr>
   \<and> m1_rpm (m1_set_rpm 100 s) = 100 \<and> m1_running (m1_set_rpm 100 s)
   \<and> last (txA (m1_set_rpm 100 s)) = M1Run 100 (100 * M1_PULSES_PER_REV / 60)
   \<and> m1_rpm (m1_set_rpm 6000 s) = 6000 \<and> m1_running (m1_set_rpm 6000 s)
   \<and> last (txA (m1_set_rpm 6000 s)) = M1Run 6000 MAX_FREQ_HZ
   \<and> m2_vel_mm_s (m2_set_velocity 1 s) = 1
   \<and> last (txA (m2_set_velocity 1 s)) = M2VelSet 1
   \<and> m2_vel_mm_s (m2_set_velocity 400 s) = 400
   \<and> last (txA (m2_set_velocity 400 s)) = M2VelSet 400
   \<and> (rpm < 100 \<or> 6000 < rpm
          \<longrightarrow> m1_set_rpm rpm s = s\<lparr>txA := txA s @ [ErrM1RpmRange]\<rparr>)
   \<and> (100 \<le> rpm \<and> rpm \<le> 6000
          \<longrightarrow> m1_rpm (m1_set_rpm rpm s) = rpm \<and> m1_running (m1_set_rpm rpm s)
              \<and> \<not> pwm0_forced_low (m1_set_rpm rpm s)
              \<and> txA (m1_set_rpm rpm s)
                  = txA s @ [M1Run rpm (min MAX_FREQ_HZ (real (unat rpm) * M1_PULSES_PER_REV / 60))])
   \<and> (vel < 1 \<or> 400 < vel
          \<longrightarrow> m2_set_velocity vel s = s\<lparr>txA := txA s @ [ErrM2VelRange]\<rparr>)
   \<and> (1 \<le> vel \<and> vel \<le> 400
          \<longrightarrow> m2_vel_mm_s (m2_set_velocity vel s) = vel
              \<and> m2_in_motion (m2_set_velocity vel s) = m2_in_motion s
              \<and> txA (m2_set_velocity vel s) = txA s @ [M2VelSet vel])"
proof -
  have b: "m1_set_rpm 99 s = s\<lparr>txA := txA s @ [ErrM1RpmRange]\<rparr>
   \<and> m1_set_rpm 6001 s = s\<lparr>txA := txA s @ [ErrM1RpmRange]\<rparr>
   \<and> m2_set_velocity 0 s = s\<lparr>txA := txA s @ [ErrM2VelRange]\<rparr>
   \<and> m2_set_velocity 401 s = s\<lparr>txA := txA s @ [ErrM2VelRange]\<rparr>
   \<and> m1_rpm (m1_set_rpm 100 s) = 100 \<and> m1_running (m1_set_rpm 100 s)
   \<and> last (txA (m1_set_rpm 100 s)) = M1Run 100 (100 * M1_PULSES_PER_REV / 60)
   \<and> m1_rpm (m1_set_rpm 6000 s) = 6000 \<and> m1_running (m1_set_rpm 6000 s)
   \<and> last (txA (m1_set_rpm 6000 s)) = M1Run 6000 MAX_FREQ_HZ
   \<and> m2_vel_mm_s (m2_set_velocity 1 s) = 1
   \<and> last (txA (m2_set_velocity 1 s)) = M2VelSet 1
   \<and> m2_vel_mm_s (m2_set_velocity 400 s) = 400
   \<and> last (txA (m2_set_velocity 400 s)) = M2VelSet 400"
    using speed_range_checks [of 99 s 0] speed_range_checks [of 6001 s 401] speed_range_checks [of 100 s 1] speed_range_checks [of 6000 s 400]
    by (simp add: A_consts)
  from b speed_range_checks [of rpm s vel] show ?thesis by blast
qed

theorem C8_speed_range_boundaries_witness:
  "(99 :: 16 word) < 100
   \<and> m1_set_rpm 99 setupA = setupA\<lparr>txA := txA setupA @ [ErrM1RpmRange]\<rparr>
   \<and> (6000 :: 16 word) < 6001
   \<and> m1_set_rpm 6001 setupA = setupA\<lparr>txA := txA setupA @ [ErrM1RpmRange]\<rparr>
   \<and> (0 :: real) < 1
   \<and> m2_set_velocity 0 setupA = setupA\<lparr>txA := txA setupA @ [ErrM2VelRange]\<rparr>
   \<and> (400 :: real) < 401
   \<and> m2_set_velocity 401 setupA = setupA\<lparr>txA := txA setupA @ [ErrM2VelRange]\<rparr>
   \<and> (100 :: 16 word) \<le> 100 \<and> (100 :: 16 word) \<le> 6000
   \<and> m1_rpm (m1_set_rpm 100 setupA) = 100 \<and> m1_running (m1_set_rpm 100 setupA)
   \<and> (100 :: 16 word) \<le> 6000 \<and> (6000 :: 16 word) \<le> 6000
   \<and> m1_rpm (m1_set_rpm 6000 setupA) = 6000 \<and> m1_running (m1_set_rpm 6000 setupA)
   \<and> txA (m1_set_rpm 6000 setupA) = txA setupA @ [M1Run 6000 MAX_FREQ_HZ]
   \<and> (1 :: real) \<le> 1 \<and> (1 :: real) \<le> 400
   \<and> m2_vel_mm_s (m2_set_velocity 1 setupA) = 1
   \<and> txA (m2_set_velocity 1 setupA) = txA setupA @ [M2VelSet 1]
   \<and> (1 :: real) \<le> 400 \<and> (400 :: real) \<le> 400
   \<and> m2_vel_mm_s (m2_set_velocity 400 setupA) = 400
   \<and> txA (m2_set_velocity 400 setupA) = txA setupA @ [M2VelSet 400]"
  using C8_speed_range_boundaries [of setupA 99 0]
        C8_speed_range_boundaries [of setupA 6001 401]
        C8_speed_range_boundaries [of setupA 100 1]
        C8_speed_range_boundaries [of setupA 6000 400]
  by (simp add: A_consts)

subsection \<open>Reverse feed against the home sensor\<close>

text \<open>
  C9: a reverse feed requested while the home sensor is asserted adds the single
  line \<^verbatim>\<open>ERROR M2_HOME_ACTIVE\<close> to the transmit log and changes nothing else: the
  PWM generator is not touched, direction, velocity and frequency keep their
  values, and \<open>in_motion\<close>, if false before, is false afterwards.
\<close>

theorem C9_reverse_blocked_at_home:
  assumes "is_m2_home_active home_pin"
  shows "m2_feed_reverse home_pin s = s\<lparr>txA := txA s @ [ErrM2HomeActive]\<rparr>
         \<and> pwm1_forced_low (m2_feed_reverse home_pin s) = pwm1_forced_low s
         \<and> pwm1_duty (m2_feed_reverse home_pin s) = pwm1_duty s
         \<and> pwm1_frequency (m2_feed_reverse home_pin s) = pwm1_frequency s
         \<and> m2_direction_fwd (m2_feed_reverse home_pin s) = m2_direction_fwd s
         \<and> m2_vel_mm_s (m2_feed_reverse home_pin s) = m2_vel_mm_s s
         \<and> m2_freq_hz (m2_feed_reverse home_pin s) = m2_freq_hz s
         \<and> m2_in_motion (m2_feed_reverse home_pin s) = m2_in_motion s"
  using assms by (simp add: m2_feed_reverse_def sendResponseA_def)

theorem C9_reverse_blocked_at_home_witness:
  "is_m2_home_active False
   \<and> m2_feed_reverse False setupA = setupA\<lparr>txA := txA setupA @ [ErrM2HomeActive]\<rparr>
   \<and> pwm1_forced_low (m2_feed_reverse False setupA)
   \<and> \<not> m2_in_motion (m2_feed_reverse False setupA)"
  using C9_reverse_blocked_at_home [of False setupA]
  by (simp add: is_m2_home_active_def setupA_def)

subsection \<open>Home stop in the main loop\<close>

lemma trim_2f: "trim ''2f'' = ''2f''"
  by (simp add: trim_def isspace_def)

text \<open>
  C10, as stated, fails when the pass that follows handles the command \<^verbatim>\<open>2f\<close>: a
  reverse feed is in flight, the home sensor is asserted, and after the pass M2 is
  still in motion (now forward), the generator is not forced low and no stopped
  line was sent.
\<close>

theorem C10_feed_forward_counterexample:
  "m2_in_motion (m2_feed_reverse True setupA)
   \<and> \<not> m2_direction_fwd (m2_feed_reverse True setupA)
   \<and> is_m2_home_active False
   \<and> m2_in_motion (loopA (int \<circ> length) (real \<circ> length) (Some ''2f'') False False 0
                      (m2_feed_reverse True setupA))
   \<and> \<not> pwm1_forced_low (loopA (int \<circ> length) (real \<circ> length) (Some ''2f'') False False 0
                      (m2_feed_reverse True setupA))
   \<and> M2Stopped \<notin> set (txA (loopA (int \<circ> length) (real \<circ> length) (Some ''2f'') False False 0
                      (m2_feed_reverse True setupA)))"
  by (simp add: loopA_def processSerialCommandA_def trim_2f charAt_def A_defs A_consts setupA_def)

lemma check_home_stop_safe:
  "\<not> (m2_in_motion (m2_check_home_stop h s) \<and> \<not> m2_direction_fwd (m2_check_home_stop h s)
      \<and> is_m2_home_active h)"
  by (simp add: m2_check_home_stop_def m2_stop_def m2_pwm_enable_def sendResponseA_def Let_def)

lemma loopA_m2_fields:
  "m2_in_motion (loopA ti tf rx hc hk now s)
     = m2_in_motion (m2_check_home_stop hk (processSerialCommandA ti tf rx hc s))"
  "m2_direction_fwd (loopA ti tf rx hc hk now s)
     = m2_direction_fwd (m2_check_home_stop hk (processSerialCommandA ti tf rx hc s))"
  "pwm1_forced_low (loopA ti tf rx hc hk now s)
     = pwm1_forced_low (m2_check_home_stop hk (processSerialCommandA ti tf rx hc s))"
  "pwm1_duty (loopA ti tf rx hc hk now s)
     = pwm1_duty (m2_check_home_stop hk (processSerialCommandA ti tf rx hc s))"
  "txA (loopA ti tf rx hc hk now s)
     = txA (m2_check_home_stop hk (processSerialCommandA ti tf rx hc s))"
  by (simp_all add: loopA_def Let_def)

text \<open>What a command other than a feed-forward can have done to a reverse feed in flight.\<close>

lemma process_reverse_in_flight:
  assumes "m2_in_motion s" "\<not> m2_direction_fwd s" "\<not> is_feed_forward_line rx"
  shows "let s1 = processSerialCommandA ti tf rx hc s in
         \<not> m2_direction_fwd s1
         \<and> (\<exists>new. txA s1 = txA s @ new \<and>
               (m2_in_motion s1 \<or> (pwm1_forced_low s1 \<and> pwm1_duty s1 = 0 \<and> M2Stopped \<in> set new)))"
  using assms
  by (auto simp: processSerialCommandA_def is_feed_forward_line_def A_defs split: option.splits)

text \<open>
  C10 (amended): after every pass of the main loop it is not the case that M2 is in
  motion, in reverse, with the home sensor asserted at the check; and if a reverse
  feed is in flight and the sensor is asserted at the check, a pass that does not
  handle a feed-forward command ends with \<open>in_motion\<close> cleared, the pulse output
  forced low with duty 0, and a stopped line among the lines sent in that pass.
\<close>

theorem C10_home_stop_each_pass:
  "\<not> (m2_in_motion (loopA ti tf rx hc hk now s)
       \<and> \<not> m2_direction_fwd (loopA ti tf rx hc hk now s)
       \<and> is_m2_home_active hk)
   \<and> (m2_in_motion s \<and> \<not> m2_direction_fwd s \<and> is_m2_home_active hk
        \<and> \<not> is_feed_forward_line rx
      \<longrightarrow> \<not> m2_in_motion (loopA ti tf rx hc hk now s)
          \<and> pwm1_forced_low (loopA ti tf rx hc hk now s)
          \<and> pwm1_duty (loopA ti tf rx hc hk now s) = 0
          \<and> M2Stopped \<in> set (drop (length (txA s)) (txA (loopA ti tf rx hc hk now s))))"
proof (intro conjI impI)
  show "\<not> (m2_in_motion (loopA ti tf rx hc hk now s)
       \<and> \<not> m2_direction_fwd (loopA ti tf rx hc hk now s)
       \<and> is_m2_home_active hk)"
    unfolding loopA_m2_fields by (rule check_home_stop_safe)
next
  assume a: "m2_in_motion s \<and> \<not> m2_direction_fwd s \<and> is_m2_home_active hk
        \<and> \<not> is_feed_forward_line rx"
  define s1 where "s1 = processSerialCommandA ti tf rx hc s"
  from a process_reverse_in_flight [of s rx ti tf hc]
  obtain new where n: "\<not> m2_direction_fwd s1" "txA s1 = txA s @ new"
     "m2_in_motion s1 \<or> (pwm1_forced_low s1 \<and> pwm1_duty s1 = 0 \<and> M2Stopped \<in> set new)"
    by (auto simp: s1_def Let_def)
  have h: "is_m2_home_active hk" using a by simp
  show "\<not> m2_in_motion (loopA ti tf rx hc hk now s)"
    unfolding loopA_m2_fields s1_def [symmetric] using n h
    by (auto simp: m2_check_home_stop_def m2_stop_def m2_pwm_enable_def sendResponseA_def Let_def)
  show "pwm1_forced_low (loopA ti tf rx hc hk now s)"
    unfolding loopA_m2_fields s1_def [symmetric] using n h
    by (auto simp: m2_check_home_stop_def m2_stop_def m2_pwm_enable_def sendResponseA_def Let_def)
  show "pwm1_duty (loopA ti tf rx hc hk now s) = 0"
    unfolding loopA_m2_fields s1_def [symmetric] using n h
    by (auto simp: m2_check_home_stop_def m2_stop_def m2_pwm_enable_def sendResponseA_def Let_def)
  show "M2Stopped \<in> set (drop (length (txA s)) (txA (loopA ti tf rx hc hk now s)))"
    unfolding loopA_m2_fields s1_def [symmetric] using n h
    by (auto simp: m2_check_home_stop_def m2_stop_def m2_pwm_enable_def sendResponseA_def Let_def)
qed

theorem C10_home_stop_each_pass_witness:
  "m2_in_motion (m2_feed_reverse True setupA)
   \<and> \<not> m2_direction_fwd (m2_feed_reverse True setupA)
   \<and> is_m2_home_active False
   \<and> \<not> is_feed_forward_line None
   \<and> \<not> m2_in_motion (loopA (int \<circ> length) (real \<circ> length) None True False 0
                        (m2_feed_reverse True setupA))
   \<and> pwm1_forced_low (loopA (int \<circ> length) (real \<circ> length) None True False 0
                        (m2_feed_reverse True setupA))
   \<and> M2Stopped \<in> set (drop (length (txA (m2_feed_reverse True setupA)))
                        (txA (loopA (int \<circ> length) (real \<circ> length) None True False 0
                               (m2_feed_reverse True setupA))))"
  using C10_home_stop_each_pass
          [of "int \<circ> length" "real \<circ> length" None True False 0 "m2_feed_reverse True setupA"]
  by (simp add: is_feed_forward_line_def A_defs A_consts setupA_def)

section \<open>Properties of the ESP32-B controller\<close>

subsection \<open>Rounding\<close>

text \<open>
  \<open>pow2\<close> is the power of two, \<open>expo x\<close> is the exponent of \<open>x\<close>, rounding is odd
  and keeps the sign, and a number between two powers of two (within the normal
  range) is rounded to a number between them.
\<close>

lemma pow2_powr: "pow2 e = 2 powr real_of_int e"
proof (cases "0 \<le> e")
  case True
  then have "real_of_int e = real (nat e)" by simp
  then show ?thesis using True by (simp add: pow2_def powr_realpow del: of_nat_nat)
next
  case False
  then have "real_of_int e = - real (nat (- e))" by simp
  then show ?thesis using False
    by (simp add: pow2_def powr_minus powr_realpow divide_inverse del: of_nat_nat)
qed

lemma pow2_pos: "0 < pow2 e"
  by (simp add: pow2_powr)

lemma pow2_add: "pow2 (a + b) = pow2 a * pow2 b"
  by (simp add: pow2_powr powr_add)

lemma pow2_le_iff: "pow2 a \<le> pow2 b \<longleftrightarrow> a \<le> b"
  by (simp add: pow2_powr)

lemma pow2_less_iff: "pow2 a < pow2 b \<longleftrightarrow> a < b"
  by (simp add: pow2_powr)

lemma pow2_nat: "pow2 (int n) = 2 ^ n"
  by (simp add: pow2_def)

lemma expo_bounds:
  assumes "x \<noteq> 0"
  shows "pow2 (expo x) \<le> \<bar>x\<bar>" and "\<bar>x\<bar> < pow2 (expo x + 1)"
proof -
  have both: "pow2 (expo x) \<le> \<bar>x\<bar> \<and> \<bar>x\<bar> < pow2 (expo x + 1)"
  proof (cases "1 \<le> \<bar>x\<bar>")
    case True
    define n where "n = \<lfloor>\<bar>x\<bar>\<rfloor>"
    have n: "0 < n" using True by (simp add: n_def)
    have e: "expo x = bitlen n - 1" using True by (simp add: expo_def n_def)
    have bl: "0 < bitlen n"
      using n bitlen_nonneg [of n] by (simp add: less_le bitlen_eq_zero_iff)
    note bb = bitlen_bounds [OF n]
    have lo: "(2::int) ^ nat (bitlen n - 1) \<le> n" using bb by simp
    have hi: "n + 1 \<le> 2 ^ nat (bitlen n)" using bb by simp
    have "pow2 (expo x) = real_of_int (2 ^ nat (bitlen n - 1))"
      using bl by (simp add: e pow2_def)
    also have "\<dots> \<le> real_of_int n" using lo by (simp only: of_int_le_iff)
    also have "\<dots> \<le> \<bar>x\<bar>" by (simp add: n_def)
    finally have 1: "pow2 (expo x) \<le> \<bar>x\<bar>" .
    have "\<bar>x\<bar> < real_of_int (n + 1)" by (simp add: n_def)
    also have "\<dots> \<le> real_of_int (2 ^ nat (bitlen n))" using hi by (simp only: of_int_le_iff)
    also have "\<dots> = pow2 (expo x + 1)" using bl by (simp add: e pow2_def)
    finally have 2: "\<bar>x\<bar> < pow2 (expo x + 1)" .
    from 1 2 show ?thesis by blast
  next
    case False
    define y where "y = 1 / \<bar>x\<bar>"
    define m where "m = \<lceil>y\<rceil> - 1"
    have xp: "0 < \<bar>x\<bar>" using assms by simp
    have y1: "1 < y" using False xp by (simp add: y_def)
    have m: "0 < m" using y1 by (simp add: m_def)
    have e: "expo x = - bitlen m" using False by (simp add: expo_def m_def y_def)
    have bl: "0 < bitlen m"
      using m bitlen_nonneg [of m] by (simp add: less_le bitlen_eq_zero_iff)
    note bb = bitlen_bounds [OF m]
    have lo: "(2::int) ^ nat (bitlen m - 1) \<le> m" using bb by simp
    have hi: "m + 1 \<le> 2 ^ nat (bitlen m)" using bb by simp
    have "y \<le> real_of_int (m + 1)" by (simp add: m_def)
    also have "\<dots> \<le> real_of_int (2 ^ nat (bitlen m))" using hi by (simp only: of_int_le_iff)
    finally have yle: "y \<le> 2 ^ nat (bitlen m)" by simp
    have "real_of_int (2 ^ nat (bitlen m - 1)) \<le> real_of_int m"
      using lo by (simp only: of_int_le_iff)
    also have "\<dots> < y" by (simp add: m_def) linarith
    finally have ygt: "2 ^ nat (bitlen m - 1) < y" by simp
    have x: "\<bar>x\<bar> = 1 / y" using xp by (simp add: y_def)
    have yp: "0 < y" using y1 by simp
    have 1: "pow2 (expo x) \<le> \<bar>x\<bar>"
    proof -
      have "pow2 (expo x) = 1 / 2 ^ nat (bitlen m)" using bl by (simp add: e pow2_def)
      also have "\<dots> \<le> 1 / y" using yle yp by (simp add: frac_le)
      finally show ?thesis by (simp add: x)
    qed
    have 2: "\<bar>x\<bar> < pow2 (expo x + 1)"
    proof -
      have "1 / y < 1 / 2 ^ nat (bitlen m - 1)"
        using ygt by (simp add: frac_less2)
      also have "\<dots> = pow2 (expo x + 1)"
      proof (cases "bitlen m = 1")
        case True
        then show ?thesis by (simp add: e pow2_def)
      next
        case False
        then have "1 < bitlen m" using bl by simp
        then have "nat (bitlen m - 1) = nat (- (1 - bitlen m))" "\<not> 0 \<le> 1 - bitlen m" by simp_all
        then show ?thesis by (simp add: e pow2_def)
      qed
      finally show ?thesis by (simp add: x)
    qed
    from 1 2 show ?thesis by blast
  qed
  from both show "pow2 (expo x) \<le> \<bar>x\<bar>" and "\<bar>x\<bar> < pow2 (expo x + 1)" by blast+
qed

lemma expo_minus: "expo (- x) = expo x"
  by (simp add: expo_def)

lemma rne_bounds: "\<lfloor>y\<rfloor> \<le> rne y" "rne y \<le> \<lceil>y\<rceil>"
proof -
  show "\<lfloor>y\<rfloor> \<le> rne y" by (simp add: rne_def Let_def)
  show "rne y \<le> \<lceil>y\<rceil>"
  proof (cases "y = of_int \<lfloor>y\<rfloor>")
    case True
    then have "y - of_int \<lfloor>y\<rfloor> = 0" by simp
    then show ?thesis by (simp add: rne_def Let_def)
  next
    case False
    then have "\<lceil>y\<rceil> = \<lfloor>y\<rfloor> + 1" by linarith
    then show ?thesis by (simp add: rne_def Let_def)
  qed
qed

lemma rne_minus: "rne (- y) = - rne y"
proof (cases "y = of_int \<lfloor>y\<rfloor>")
  case True
  then obtain k where k: "y = of_int k" ..
  show ?thesis unfolding k by (simp add: rne_def Let_def flip: of_int_minus)
next
  case False
  then have f: "\<lfloor>- y\<rfloor> = - \<lfloor>y\<rfloor> - 1" by linarith
  have r: "0 < y - of_int \<lfloor>y\<rfloor>" "y - of_int \<lfloor>y\<rfloor> < 1" using False by linarith+
  show ?thesis
    unfolding rne_def Let_def f using r by (auto simp: algebra_simps)
qed

lemma round_to_minus: "round_to p emin (- x) = - round_to p emin x"
  by (simp add: round_to_def Let_def expo_minus rne_minus)

lemma round_to_nonneg:
  assumes "0 \<le> x"
  shows "0 \<le> round_to p emin x"
proof (cases "x = 0")
  case True
  then show ?thesis by (simp add: round_to_def)
next
  case False
  define u where "u = pow2 (max (expo x) emin - (int p - 1))"
  have up: "0 < u" by (simp add: u_def pow2_pos)
  have "0 \<le> x / u" using assms up by simp
  then have "0 \<le> \<lfloor>x / u\<rfloor>" by simp
  then have "0 \<le> rne (x / u)" using rne_bounds(1) [of "x / u"] by linarith
  then have "0 \<le> real_of_int (rne (x / u)) * u" using up by simp
  then show ?thesis using False by (simp add: round_to_def Let_def u_def)
qed

lemma round_to_ge_pow2:
  assumes "pow2 k \<le> x" and "emin \<le> k" and "0 < p"
  shows "pow2 k \<le> round_to p emin x"
proof -
  have xp: "0 < x" using assms(1) pow2_pos [of k] by linarith
  then have x0: "x \<noteq> 0" and ax: "\<bar>x\<bar> = x" by simp_all
  have "pow2 k < pow2 (expo x + 1)" using expo_bounds(2) [OF x0] assms(1) ax by linarith
  then have ke: "k \<le> expo x" by (simp add: pow2_less_iff)
  then have e: "max (expo x) emin = expo x" using assms(2) by simp
  define u where "u = pow2 (expo x - (int p - 1))"
  have up: "0 < u" by (simp add: u_def pow2_pos)
  have pu: "pow2 (expo x) = 2 ^ (p - 1) * u"
  proof -
    have "pow2 (expo x) = pow2 (int (p - 1) + (expo x - (int p - 1)))"
      using assms(3) by (simp add: of_nat_diff)
    then show ?thesis by (simp only: pow2_add pow2_nat u_def)
  qed
  have "2 ^ (p - 1) * u \<le> x" using expo_bounds(1) [OF x0] ax pu by simp
  then have "real_of_int (2 ^ (p - 1)) \<le> x / u" using up by (simp add: pos_le_divide_eq)
  then have "2 ^ (p - 1) \<le> \<lfloor>x / u\<rfloor>" by (simp only: le_floor_iff)
  then have "2 ^ (p - 1) \<le> rne (x / u)" using rne_bounds(1) [of "x / u"] by linarith
  then have "real_of_int (2 ^ (p - 1)) \<le> real_of_int (rne (x / u))" by (simp only: of_int_le_iff)
  then have "2 ^ (p - 1) * u \<le> real_of_int (rne (x / u)) * u" using up by simp
  then have "pow2 (expo x) \<le> round_to p emin x"
    using x0 by (simp add: round_to_def Let_def e pu u_def)
  moreover have "pow2 k \<le> pow2 (expo x)" using ke by (simp add: pow2_le_iff)
  ultimately show ?thesis by linarith
qed

lemma round_to_le_pow2:
  assumes "0 < x" and "x \<le> pow2 m" and "emin \<le> m" and "0 < p"
  shows "round_to p emin x \<le> pow2 m"
proof -
  have x0: "x \<noteq> 0" and ax: "\<bar>x\<bar> = x" using assms(1) by simp_all
  define e where "e = max (expo x) emin"
  define u where "u = pow2 (e - (int p - 1))"
  have up: "0 < u" by (simp add: u_def pow2_pos)
  have r: "round_to p emin x = real_of_int (rne (x / u)) * u"
    using x0 by (simp add: round_to_def Let_def e_def u_def)
  have "pow2 (expo x) \<le> pow2 m" using expo_bounds(1) [OF x0] ax assms(2) by linarith
  then have em: "expo x \<le> m" by (simp add: pow2_le_iff)
  then have e_le: "e \<le> m" using assms(3) by (simp add: e_def)
  have "pow2 m = pow2 (int (p - 1) + ((m - e) + (e - (int p - 1))))"
    using assms(4) by (simp add: of_nat_diff)
  then have pu: "pow2 m = 2 ^ (p - 1) * pow2 (m - e) * u"
    by (simp only: pow2_add pow2_nat u_def mult.assoc)
  have "pow2 (m - e) = 2 ^ nat (m - e)" using e_le by (simp add: pow2_def)
  then have pm: "pow2 m = real_of_int (2 ^ (p - 1) * 2 ^ nat (m - e)) * u"
    using pu by simp
  have "x / u \<le> real_of_int (2 ^ (p - 1) * 2 ^ nat (m - e))"
    using assms(2) up unfolding pm by (simp add: pos_divide_le_eq)
  then have "\<lceil>x / u\<rceil> \<le> 2 ^ (p - 1) * 2 ^ nat (m - e)" by (simp only: ceiling_le_iff)
  then have "rne (x / u) \<le> 2 ^ (p - 1) * 2 ^ nat (m - e)"
    using rne_bounds(2) [of "x / u"] by linarith
  then have "real_of_int (rne (x / u)) \<le> real_of_int (2 ^ (p - 1) * 2 ^ nat (m - e))"
    by (simp only: of_int_le_iff)
  then have "real_of_int (rne (x / u)) * u \<le> real_of_int (2 ^ (p - 1) * 2 ^ nat (m - e)) * u"
    using up by simp
  then show ?thesis unfolding r pm .
qed

lemma f32_zero: "f32 0 = 0"
  by (simp add: f32_def round_to_def)

lemma f32_minus: "f32 (- x) = - f32 x"
  by (simp add: f32_def round_to_minus)

lemma f32_sign: "0 \<le> x \<Longrightarrow> 0 \<le> f32 x" "x \<le> 0 \<Longrightarrow> f32 x \<le> 0"
proof -
  show "0 \<le> x \<Longrightarrow> 0 \<le> f32 x" by (simp add: f32_def round_to_nonneg)
  show "f32 x \<le> 0" if "x \<le> 0"
  proof -
    have "0 \<le> f32 (- x)" using that by (simp add: f32_def round_to_nonneg)
    then show ?thesis by (simp add: f32_minus)
  qed
qed

lemma f32_between:
  assumes "8 \<le> x" and "x \<le> 256"
  shows "8 \<le> f32 x" and "f32 x \<le> 256"
proof -
  have p: "pow2 3 = 8" "pow2 8 = 256" by (simp_all add: pow2_def)
  show "8 \<le> f32 x"
    using round_to_ge_pow2 [of 3 x "- 126" 24] assms(1) by (simp add: p f32_def)
  show "f32 x \<le> 256"
    using round_to_le_pow2 [of x 8 "- 126" 24] assms by (simp add: p f32_def)
qed

text \<open>
  In \<^verbatim>\<open>updateTimerFrequency\<close> the step rate is at least 10, so the interval in
  microseconds lies between 0 and \<open>2^17\<close>: its conversion to \<^verbatim>\<open>uint32_t\<close> is
  within range.
\<close>

lemma step_interval_in_range:
  assumes "10 \<le> r"
  shows "0 \<le> f64 (1000000 / r)" and "f64 (1000000 / r) \<le> 131072"
proof -
  have p: "pow2 17 = 131072" by (simp add: pow2_def)
  have x: "0 < 1000000 / r" "1000000 / r \<le> 131072"
    using assms by (simp_all add: pos_divide_le_eq)
  show "0 \<le> f64 (1000000 / r)"
    using x(1) by (simp add: f64_def round_to_nonneg)
  show "f64 (1000000 / r) \<le> 131072"
    using round_to_le_pow2 [of "1000000 / r" 17 "- 1022" 53] x by (simp add: p f64_def)
qed

text \<open>
  The decimals of the example runs have the same binary32 value when they are
  first rounded to binary64 (a conversion through \<^verbatim>\<open>double\<close>).
\<close>

lemma literal_rounding:
  "f32 (f64 0.2) = f32 0.2" "f32 (f64 0.008) = f32 0.008"
  "f32 (f64 0.103717) = f32 0.103717" "f32 (f64 0.20000002) = f32 0.20000002"
  "f32 1 = 1"
  by code_simp+

subsection \<open>Calibration constants and conversions\<close>

text \<open>The values of the constants, as binary32 numbers.\<close>

lemma STEPS_PER_IN_value: "STEPS_PER_IN = 4462605 / 4096"
  by code_simp

lemma constant_values:
  "IN_PER_COUNT = 1971067 / 536870912"
  "POSITION_TOLERANCE_IN = 2113665 / 268435456"
  "MAX_POSITION_ERROR_IN = 13421773 / 67108864"
  "DEFAULT_VELOCITY_IPS = 825439 / 16777216"
  "CORRECTION_VELOCITY_SCALE = 13421773 / 134217728"
  "MIN_CORRECTION_VEL_IPS = 5368709 / 1073741824"
  by code_simp+

lemma tolerance_product: "f32 (POSITION_TOLERANCE_IN * STEPS_PER_IN) = 8995487 / 1048576"
  by code_simp

text \<open>The tolerance of the timer routine, \<open>0.2 mm\<close> in steps, is 8.\<close>

lemma tolerance_steps: "int32_of_real (f32 (POSITION_TOLERANCE_IN * STEPS_PER_IN)) = 8"
  by code_simp

text \<open>
  Where the rounding shows: an error of \<^verbatim>\<open>0.103717f\<close> inches is 113 steps (the
  exact product is below 113), a move by \<^verbatim>\<open>5.173f\<close> inches is 5636 steps, and
  8947 encoder counts are \<open>32.847999572753906\<close> inches.
\<close>

lemma rounding_examples:
  "int32_of_real (f32 (f32 0.103717 * STEPS_PER_IN)) = 113"
  "trunc_real (f32 0.103717 * STEPS_PER_IN) = 112"
  "int32_of_real (f32 (f32 5.173 * STEPS_PER_IN)) = 5636"
  "trunc_real (f32 5.173 * STEPS_PER_IN) = 5635"
  "f32 (real_of_int32 8947 * IN_PER_COUNT) = 4305453 / 131072"
  by code_simp+

lemma sint_int32_small:
  assumes "- 2147483648 \<le> k" "k < 2147483648"
  shows "sint (word_of_int k :: 32 word) = k"
  using assms by (simp add: sint_sbintrunc' signed_take_bit_int_eq_self)

lemma sint_add_small:
  fixes w :: "32 word"
  assumes "- 2147483648 \<le> sint w + k" "sint w + k < 2147483648"
  shows "sint (w + word_of_int k) = sint w + k"
proof -
  have "w + word_of_int k = word_of_int (sint w + k)"
    by simp
  then show ?thesis
    using assms by (simp only: sint_sbintrunc') (simp add: signed_take_bit_int_eq_self)
qed

lemma sint_succ_pred:
  fixes w :: "32 word"
  shows "sint w < 2147483647 \<Longrightarrow> sint (w + 1) = sint w + 1"
    and "- 2147483648 < sint w \<Longrightarrow> sint (w - 1) = sint w - 1"
proof -
  have lo: "- 2147483648 \<le> sint w" and hi: "sint w < 2147483648"
    using sint_ge [of w] sint_lt [of w] by simp_all
  show "sint (w + 1) = sint w + 1" if "sint w < 2147483647"
    using sint_add_small [of w 1] that lo by simp
  show "sint (w - 1) = sint w - 1" if "- 2147483648 < sint w"
    using sint_add_small [of w "- 1"] that hi by simp
qed

lemma trunc_real_abs_le: "\<bar>real_of_int (trunc_real x)\<bar> \<le> \<bar>x\<bar>"
  by (simp add: trunc_real_def)

text \<open>Within the range of \<^verbatim>\<open>int32_t\<close> the conversion delivers the integer part.\<close>

lemma sint_int32_of_real:
  assumes "\<bar>x\<bar> < 2147483648"
  shows "sint (int32_of_real x) = trunc_real x"
proof -
  have "\<bar>real_of_int (trunc_real x)\<bar> < 2147483648"
    using trunc_real_abs_le [of x] assms by linarith
  then have r: "- 2147483648 \<le> trunc_real x" "trunc_real x \<le> 2147483647"
    by linarith+
  then have "int32_of_real x = word_of_int (trunc_real x)"
    by (simp add: int32_of_real_def)
  then show ?thesis using r by (simp add: sint_int32_small)
qed

text \<open>
  Where the subtraction does not overflow, the test of the timer routine is the
  test \<open>|target - current| \<le> 8\<close> on the integers the words stand for.
\<close>

lemma within_tolerance_signed:
  fixes t c :: "32 word"
  assumes "- 2147483648 < sint t - sint c" "sint t - sint c < 2147483648"
  shows "(abs32 (t - c) \<le>s 8) = (\<bar>sint t - sint c\<bar> \<le> 8)"
proof -
  have "t - c = word_of_int (sint t - sint c)" by simp
  then have d: "sint (t - c) = sint t - sint c"
    using assms by (simp only: sint_sbintrunc') (simp add: signed_take_bit_int_eq_self)
  have "c - t = word_of_int (sint c - sint t)" by simp
  then have n: "sint (c - t) = sint c - sint t"
    using assms by (simp only: sint_sbintrunc') (simp add: signed_take_bit_int_eq_self)
  show ?thesis
    by (auto simp: abs32_def word_sle_eq word_sless_alt d n)
qed

subsection \<open>Reachable states\<close>

lemma ab_code_cases:
  "ab_code False False = 0" "ab_code False True = 1"
  "ab_code True False = 2" "ab_code True True = 3"
  by (simp_all add: ab_code_def pin_level_def)

lemma ab_code_bits: "(ab_code a b AND 2 \<noteq> 0) = a" "(ab_code a b AND 1 \<noteq> 0) = b"
  by (cases a; cases b; simp add: ab_code_cases)+

lemma invB_view: "isr_view s' = isr_view s \<Longrightarrow> invB s' = invB s"
  by (simp add: invB_def isr_view_def last_a_def last_b_def)

lemma view_update_simps [simp]:
  "isr_view (s\<lparr>motor_target_position_in := x1\<rparr>) = isr_view s"
  "isr_view (s\<lparr>motor_target_steps := x2\<rparr>) = isr_view s"
  "isr_view (s\<lparr>motor_current_steps := x3\<rparr>) = isr_view s"
  "isr_view (s\<lparr>motor_in_motion := x4\<rparr>) = isr_view s"
  "isr_view (s\<lparr>motor_direction := x5\<rparr>) = isr_view s"
  "isr_view (s\<lparr>dir_pin := x6\<rparr>) = isr_view s"
  "isr_view (s\<lparr>motor_velocity_ips := x7\<rparr>) = isr_view s"
  "isr_view (s\<lparr>motor_base_velocity_ips := x8\<rparr>) = isr_view s"
  "isr_view (s\<lparr>motor_motion_complete_flag := x9\<rparr>) = isr_view s"
  "isr_view (s\<lparr>last_status_msB := x10\<rparr>) = isr_view s"
  "isr_view (s\<lparr>reset_button_triggered := x11\<rparr>) = isr_view s"
  "isr_view (s\<lparr>reset_button_last_edge_ms := x12\<rparr>) = isr_view s"
  "isr_view (s\<lparr>reset_button_last_level := x13\<rparr>) = isr_view s"
  "isr_view (s\<lparr>txB := x14\<rparr>) = isr_view s"
  "isr_view (s\<lparr>delayed_ms := x15\<rparr>) = isr_view s"
  by (simp_all add: isr_view_def)

lemma view_sendResponseB [simp]: "isr_view (sendResponseB m s) = isr_view s"
  by (simp add: sendResponseB_def)

lemma view_delay [simp]: "isr_view (delay n s) = isr_view s"
  by (simp add: delay_def)

lemma view_sync [simp]: "isr_view (syncMotorStepsWithEncoder s) = isr_view s"
  by (simp add: syncMotorStepsWithEncoder_def Let_def)

lemma view_updateTimerFrequency [simp]: "isr_view (updateTimerFrequency s) = isr_view s"
  by (simp add: isr_view_def updateTimerFrequency_def Let_def)

lemma view_stop [simp]: "isr_view (stop s) = isr_view s"
  by (simp add: stop_def Let_def)

lemma view_resetEncoder [simp]: "isr_view (resetEncoder s) = isr_view s"
  by (simp add: resetEncoder_def resetEncoderCount_def Let_def) (simp add: isr_view_def)

lemma view_gotoPosition [simp]: "isr_view (gotoPosition p s) = isr_view s"
  by (simp add: gotoPosition_def Let_def)

lemma view_home [simp]: "isr_view (home s) = isr_view s"
  by (simp add: home_def Let_def)

lemma view_setVelocity [simp]: "isr_view (setVelocity v s) = isr_view s"
  by (simp add: setVelocity_def Let_def)

lemma view_queryStatusB [simp]: "isr_view (queryStatusB s) = isr_view s"
  by (simp add: queryStatusB_def Let_def)

lemma view_sendStatusUpdate [simp]: "isr_view (sendStatusUpdate s) = isr_view s"
  by (simp add: sendStatusUpdate_def Let_def)

lemma view_closedLoopCorrection [simp]: "isr_view (closedLoopCorrection s) = isr_view s"
  by (simp add: closedLoopCorrection_def Let_def)

lemma view_updateEncoder [simp]: "isr_view (updateEncoder now s) = isr_view s"
  by (simp add: updateEncoder_def Let_def) (simp add: isr_view_def)

lemma view_updateResetButton [simp]: "isr_view (updateResetButton now l s) = isr_view s"
  by (simp add: updateResetButton_def Let_def)

lemma view_processSerialCommandB [simp]: "isr_view (processSerialCommandB tf rx s) = isr_view s"
  by (simp add: processSerialCommandB_def Let_def split: option.splits)

lemma view_loopB: "isr_view (loopB tf now ne nb l rx s) = isr_view s"
  by (simp add: loopB_def Let_def)

lemma invB_setupB: "invB (setupB a b l t1 t2)"
  by (simp add: invB_def setupB_def initInterruptEncoder_def Let_def updateTimerFrequency_def
        last_a_def last_b_def ab_code_bits sendResponseB_def)

lemma invB_onTimer: "invB s \<Longrightarrow> invB (onTimer s)"
  by (simp add: invB_def onTimer_def Let_def last_a_def last_b_def)

lemma invB_handleEncoderChange: "invB s \<Longrightarrow> invB (handleEncoderChange a b s)"
  by (simp add: invB_def handleEncoderChange_def Let_def last_a_def last_b_def ab_code_bits)

text \<open>Every reachable state satisfies the invariant.\<close>

lemma reachableB_invB: "reachableB s \<Longrightarrow> invB s"
proof (induction rule: reachableB.induct)
  case (init enc_a enc_b reset_level t_enc t_btn)
  show ?case by (rule invB_setupB)
next
  case (tick s)
  then show ?case by (simp add: invB_onTimer)
next
  case (edge s a b)
  then show ?case by (simp add: invB_handleEncoderChange)
next
  case (pass s toFloat now now_enc now_btn reset_level rx)
  then show ?case by (simp add: invB_view [OF view_loopB])
qed

subsection \<open>The example runs, evaluated\<close>

lemma default_interval:
  "uint32_of_real (f64 (1000000 / f32 (DEFAULT_VELOCITY_IPS * STEPS_PER_IN))) = 18655"
  by code_simp

lemma default_rate: "\<not> f32 (DEFAULT_VELOCITY_IPS * STEPS_PER_IN) < 10"
  by code_simp

lemma updateTimerFrequency_default:
  "motor_velocity_ips s = DEFAULT_VELOCITY_IPS \<Longrightarrow>
   updateTimerFrequency s = s\<lparr>motor_step_interval_us := 18655, timer_alarm := 9327\<rparr>"
  by (simp add: updateTimerFrequency_def Let_def default_interval default_rate)

lemma ex_idle_eq:
  "ex_idle = \<lparr>encoder_detected = True, encoder_counts = 0, encoder_last_ab = 0,
    encoder_last_counts = 0, encoder_last_delta_counts = 0,
    encoder_position_in = 0, encoder_velocity_ips = 0,
    encoder_velocity_ema_ips = 0, encoder_last_vel_ms = 0,
    motor_target_steps = 0, motor_current_steps = 0,
    motor_velocity_ips = DEFAULT_VELOCITY_IPS,
    motor_base_velocity_ips = DEFAULT_VELOCITY_IPS,
    motor_in_motion = False, motor_direction = True,
    motor_step_pin_state = False, motor_step_interval_us = 18655,
    motor_pulse_counter = 0, motor_motion_complete_flag = False,
    motor_target_position_in = 0, motor_closed_loop_enabled = True,
    reset_button_last_level = True, reset_button_triggered = False,
    reset_button_last_edge_ms = 0, last_status_msB = 0, step_pin = False,
    dir_pin = False, timer_alarm = 9327, delayed_ms = 500,
    txB = boot_lines\<rparr>"
  by (simp add: boot_lines_def ex_idle_def setupB_def Let_def initInterruptEncoder_def
        updateTimerFrequency_default ab_code_cases)

lemmas loop_eval = loopB_def Let_def updateEncoder_def readEncoderCount_def updateResetButton_def
       processSerialCommandB_def charAt_def substring_def
       sendResponseB_def delay_def
       STATUS_UPDATE_MS_def RESET_DEBOUNCE_MS_def

lemma trim_examples:
  "trim ''g1'' = ''g1''" "trim ''g0.2'' = ''g0.2''" "trim ''g0.008'' = ''g0.008''"
  "trim ''g0.103717'' = ''g0.103717''" "trim ''g0.20000002'' = ''g0.20000002''"
  "trim ''s'' = ''s''" "trim ''h'' = ''h''"
  by (simp_all add: trim_def isspace_def)

lemma conversion_zero: "real_of_int32 0 = 0" "int32_of_real 0 = 0"
  by (simp_all add: real_of_int32_def int32_of_real_def trunc_real_def f32_zero)

text \<open>
  A pass from idle that receives a go-to to the position \<open>p\<close>, beyond the
  tolerance, that is \<open>n\<close> steps away.
\<close>

lemma loop_goto_from_idle:
  assumes "trim line = CHR ''g'' # arg" and "tf arg = p"
    and "POSITION_TOLERANCE_IN < f32 p"
    and "int32_of_real (f32 (f32 p * STEPS_PER_IN)) = n"
  shows "loopB tf 0 0 0 True (Some line) ex_idle
         = ex_idle\<lparr>motor_target_steps := n,
                    motor_in_motion := True, motor_target_position_in := p,
                    dir_pin := True, delayed_ms := 502,
                    txB := boot_lines @ [EchoB (CHR ''g'' # arg), MovingEnc 0 p]\<rparr>"
proof -
  have "0 < POSITION_TOLERANCE_IN" by (simp add: constant_values)
  then have q: "0 < f32 p" "\<not> \<bar>f32 p\<bar> \<le> POSITION_TOLERANCE_IN"
    using assms(3) by simp_all
  show ?thesis
    unfolding ex_idle_eq
    by (simp add: loop_eval assms(1) assms(2) assms(4) q conversion_zero f32_zero
          gotoPosition_def syncMotorStepsWithEncoder_def updateTimerFrequency_default)
qed

lemma ex_goto_g1:
  "ex_goto ''g1'' = ex_idle\<lparr>motor_target_steps := 1089,
                    motor_in_motion := True, motor_target_position_in := 1,
                    dir_pin := True, delayed_ms := 502,
                    txB := boot_lines @ [EchoB ''g1'', MovingEnc 0 1]\<rparr>"
  unfolding ex_goto_def
  by (rule loop_goto_from_idle; code_simp)

lemma ex_goto_g02:
  "ex_goto ''g0.2'' = ex_idle\<lparr>motor_target_steps := 217,
                    motor_in_motion := True,
                    motor_target_position_in := 13421773 / 67108864,
                    dir_pin := True, delayed_ms := 502,
                    txB := boot_lines @ [EchoB ''g0.2'', MovingEnc 0 (13421773 / 67108864)]\<rparr>"
  unfolding ex_goto_def
  by (rule loop_goto_from_idle; code_simp)

lemma ex_goto_g0008:
  "ex_goto ''g0.008'' = ex_idle\<lparr>motor_target_steps := 8,
                    motor_in_motion := True,
                    motor_target_position_in := 8589935 / 1073741824,
                    dir_pin := True, delayed_ms := 502,
                    txB := boot_lines @ [EchoB ''g0.008'', MovingEnc 0 (8589935 / 1073741824)]\<rparr>"
  unfolding ex_goto_def
  by (rule loop_goto_from_idle; code_simp)

lemma ex_goto_g0103717:
  "ex_goto ''g0.103717'' = ex_idle\<lparr>motor_target_steps := 113,
                    motor_in_motion := True,
                    motor_target_position_in := 3480165 / 33554432,
                    dir_pin := True, delayed_ms := 502,
                    txB := boot_lines @ [EchoB ''g0.103717'', MovingEnc 0 (3480165 / 33554432)]\<rparr>"
  unfolding ex_goto_def
  by (rule loop_goto_from_idle; code_simp)

lemma ex_goto_g020000002:
  "ex_goto ''g0.20000002'' = ex_idle\<lparr>motor_target_steps := 217,
                    motor_in_motion := True,
                    motor_target_position_in := 6710887 / 33554432,
                    dir_pin := True, delayed_ms := 502,
                    txB := boot_lines @ [EchoB ''g0.20000002'', MovingEnc 0 (6710887 / 33554432)]\<rparr>"
  unfolding ex_goto_def
  by (rule loop_goto_from_idle; code_simp)

lemma ex_high_eq:
  "ex_high = ex_idle\<lparr>motor_target_steps := 1089,
                    motor_in_motion := True, motor_target_position_in := 1,
                    dir_pin := True, delayed_ms := 502,
                    txB := boot_lines @ [EchoB ''g1'', MovingEnc 0 1],
                    step_pin := True, motor_step_pin_state := True\<rparr>"
  unfolding ex_high_def ex_goto_g1 ex_idle_eq
  by (simp add: onTimer_def Let_def tolerance_steps abs32_def word_sless_alt word_sle_eq)

lemma ex_stopped_eq:
  "ex_stopped = ex_idle\<lparr>motor_target_steps := 1089,
                    motor_target_position_in := 1,
                    dir_pin := True, delayed_ms := 504,
                    txB := boot_lines @ [EchoB ''g1'', MovingEnc 0 1, EchoB ''s'', StoppedEnc 0 0],
                    step_pin := True, motor_step_pin_state := True\<rparr>"
  unfolding ex_stopped_def ex_high_eq ex_idle_eq
  by (simp add: loop_eval trim_examples stop_def conversion_zero f32_zero)

lemma ex_turned_eq: "ex_turned = ex_idle\<lparr>encoder_counts := 4\<rparr>"
  unfolding ex_turned_def ex_idle_eq
  by (simp add: handleEncoderChange_def Let_def ab_code_cases quad_table_def)

text \<open>
  Four counts are \<open>1971067 / 134217728\<close> inches, and that position is exactly 16
  steps.
\<close>

lemma sync_16:
  "f32 (real_of_int32 4 * IN_PER_COUNT) = 1971067 / 134217728"
  "f32 (f32 (real_of_int32 4 * IN_PER_COUNT) * STEPS_PER_IN) = 16"
  "int32_of_real (f32 (f32 (real_of_int32 4 * IN_PER_COUNT) * STEPS_PER_IN)) = 16"
  "int32_of_real (f32 (1971067 * STEPS_PER_IN / 134217728)) = 16"
  by code_simp+

lemma ex_homed_eq:
  "ex_homed = ex_idle\<lparr>encoder_last_delta_counts := 4, motor_current_steps := 16,
                delayed_ms := 502,
                txB := boot_lines @ [EchoB ''h'', EncoderReset, Homed]\<rparr>"
  unfolding ex_homed_def ex_turned_eq ex_idle_eq
  by (simp add: loop_eval trim_examples home_def syncMotorStepsWithEncoder_def
        resetEncoder_def resetEncoderCount_def sync_16)

lemma reachable_examples:
  "reachableB ex_idle" "reachableB (ex_goto line)" "reachableB ex_high"
  "reachableB ex_stopped" "reachableB ex_homed"
proof -
  show i: "reachableB ex_idle" unfolding ex_idle_def by (rule reachableB.init)
  show g: "reachableB (ex_goto line)" for line
    unfolding ex_goto_def by (rule reachableB.pass [OF i])
  show h: "reachableB ex_high" unfolding ex_high_def by (rule reachableB.tick [OF g])
  show "reachableB ex_stopped" unfolding ex_stopped_def by (rule reachableB.pass [OF h])
  have "reachableB ex_turned"
    unfolding ex_turned_def by (simp add: reachableB.edge [OF reachableB.edge] i reachableB.edge)
  then show "reachableB ex_homed" unfolding ex_homed_def by (rule reachableB.pass)
qed

lemma ex_tick_facts:
  "\<not> motor_in_motion ex_idle"
  "motor_in_motion (ex_goto ''g0.008'')"
  "abs32 (motor_target_steps (ex_goto ''g0.008'') - motor_current_steps (ex_goto ''g0.008'')) \<le>s 8"
  "motor_in_motion (ex_goto ''g1'')"
  "\<not> abs32 (motor_target_steps (ex_goto ''g1'') - motor_current_steps (ex_goto ''g1'')) \<le>s 8"
  "\<not> motor_step_pin_state (ex_goto ''g1'')"
  "motor_direction (ex_goto ''g1'')"
  "motor_current_steps (ex_goto ''g1'') = 0"
  "motor_in_motion ex_high"
  "\<not> abs32 (motor_target_steps ex_high - motor_current_steps ex_high) \<le>s 8"
  "motor_step_pin_state ex_high"
  "motor_direction ex_high"
  "motor_current_steps ex_high = 0"
  by (simp_all add: ex_goto_g0008 ex_goto_g1 ex_high_eq ex_idle_eq abs32_def word_sle_eq
        word_sless_alt)

lemma ex_idle_last: "last_a ex_idle = False" "last_b ex_idle = False" "encoder_counts ex_idle = 0"
  by (simp_all add: ex_idle_eq last_a_def last_b_def)

lemma ex_goto_g02_facts:
  "motor_closed_loop_enabled (ex_goto ''g0.2'')"
  "motor_target_position_in (ex_goto ''g0.2'') = 13421773 / 67108864"
  "encoder_position_in (ex_goto ''g0.2'') = 0"
  "motor_base_velocity_ips (ex_goto ''g0.2'') = DEFAULT_VELOCITY_IPS"
  "delayed_ms (ex_goto ''g0.2'') = 502"
  "encoder_detected (ex_goto ''g0.2'')"
  "txB (ex_goto ''g0.2'') = boot_lines @ [EchoB ''g0.2'', MovingEnc 0 (13421773 / 67108864)]"
  by (simp_all add: ex_goto_g02 ex_idle_eq)

lemma ex_goto_g0103717_facts:
  "motor_closed_loop_enabled (ex_goto ''g0.103717'')"
  "motor_target_position_in (ex_goto ''g0.103717'') = 3480165 / 33554432"
  "encoder_position_in (ex_goto ''g0.103717'') = 0"
  "encoder_detected (ex_goto ''g0.103717'')"
  by (simp_all add: ex_goto_g0103717 ex_idle_eq)

lemma ex_goto_g020000002_facts:
  "motor_target_position_in (ex_goto ''g0.20000002'') = 6710887 / 33554432"
  "encoder_position_in (ex_goto ''g0.20000002'') = 0"
  "motor_in_motion (ex_goto ''g0.20000002'')"
  by (simp_all add: ex_goto_g020000002 ex_idle_eq)

lemma ex_goto_g1_facts:
  "motor_target_position_in (ex_goto ''g1'') = 1"
  "encoder_position_in (ex_goto ''g1'') = 0"
  "motor_target_steps (ex_goto ''g1'') = 1089"
  "motor_in_motion (ex_goto ''g1'')"
  by (simp_all add: ex_goto_g1 ex_idle_eq)

subsection \<open>Timer tick of the positioning axis\<close>

text \<open>
  C1: in every reachable state, a timer tick with \<open>in_motion\<close> false returns the
  state unchanged. With \<open>in_motion\<close> true and the step error within the tolerance
  (8 steps, the integer part of \<open>0.2 mm\<close> in steps; the difference and its absolute
  value are those of \<^verbatim>\<open>int32_t\<close>), the tick clears \<open>in_motion\<close>, raises the
  motion-complete flag, drives the step output low and changes nothing else, so
  \<open>current_steps\<close> is unchanged. Otherwise the tick is one phase of a pulse: from
  the low phase it drives the output high, and the following tick drives it low and
  adds 1 to \<open>current_steps\<close> when the direction is forward and subtracts 1 when it
  is reverse; from the high phase it drives the output low and counts that step.
  Where the subtraction does not overflow, the tolerance test is \<open>|target - current| \<le> 8\<close>
  on the signed values, and away from the ends of the \<^verbatim>\<open>int32_t\<close> range the step
  changes the signed value of \<open>current_steps\<close> by exactly 1.
\<close>

theorem C1_onTimer_tick:
  assumes "reachableB s"
  shows "(\<not> motor_in_motion s \<longrightarrow> onTimer s = s)
   \<and> (motor_in_motion s \<and> abs32 (motor_target_steps s - motor_current_steps s) \<le>s 8
        \<longrightarrow> onTimer s = s\<lparr>motor_in_motion := False, motor_motion_complete_flag := True,
                            step_pin := False\<rparr>
            \<and> motor_current_steps (onTimer s) = motor_current_steps s)
   \<and> (motor_in_motion s \<and> \<not> abs32 (motor_target_steps s - motor_current_steps s) \<le>s 8
        \<and> \<not> motor_step_pin_state s
        \<longrightarrow> onTimer s = s\<lparr>step_pin := True, motor_step_pin_state := True,
                            motor_pulse_counter := 0\<rparr>
            \<and> \<not> step_pin (onTimer (onTimer s))
            \<and> motor_current_steps (onTimer (onTimer s))
                = (if motor_direction s then motor_current_steps s + 1
                   else motor_current_steps s - 1))
   \<and> (motor_in_motion s \<and> \<not> abs32 (motor_target_steps s - motor_current_steps s) \<le>s 8
        \<and> motor_step_pin_state s
        \<longrightarrow> onTimer s = s\<lparr>motor_pulse_counter := 1, step_pin := False,
                            motor_step_pin_state := False,
                            motor_current_steps :=
                              (if motor_direction s then motor_current_steps s + 1
                               else motor_current_steps s - 1)\<rparr>)
   \<and> (- 2147483648 < sint (motor_target_steps s) - sint (motor_current_steps s)
        \<and> sint (motor_target_steps s) - sint (motor_current_steps s) < 2147483648
        \<longrightarrow> (abs32 (motor_target_steps s - motor_current_steps s) \<le>s 8)
            = (\<bar>sint (motor_target_steps s) - sint (motor_current_steps s)\<bar> \<le> 8))
   \<and> (sint (motor_current_steps s) < 2147483647
        \<longrightarrow> sint (motor_current_steps s + 1) = sint (motor_current_steps s) + 1)
   \<and> (- 2147483648 < sint (motor_current_steps s)
        \<longrightarrow> sint (motor_current_steps s - 1) = sint (motor_current_steps s) - 1)"
proof -
  have inv: "motor_step_pin_state s \<longrightarrow> motor_pulse_counter s = 0"
    using reachableB_invB [OF assms] by (simp add: invB_def)
  have tick: "(\<not> motor_in_motion s \<longrightarrow> onTimer s = s)
   \<and> (motor_in_motion s \<and> abs32 (motor_target_steps s - motor_current_steps s) \<le>s 8
        \<longrightarrow> onTimer s = s\<lparr>motor_in_motion := False, motor_motion_complete_flag := True,
                            step_pin := False\<rparr>
            \<and> motor_current_steps (onTimer s) = motor_current_steps s)
   \<and> (motor_in_motion s \<and> \<not> abs32 (motor_target_steps s - motor_current_steps s) \<le>s 8
        \<and> \<not> motor_step_pin_state s
        \<longrightarrow> onTimer s = s\<lparr>step_pin := True, motor_step_pin_state := True,
                            motor_pulse_counter := 0\<rparr>
            \<and> \<not> step_pin (onTimer (onTimer s))
            \<and> motor_current_steps (onTimer (onTimer s))
                = (if motor_direction s then motor_current_steps s + 1
                   else motor_current_steps s - 1))
   \<and> (motor_in_motion s \<and> \<not> abs32 (motor_target_steps s - motor_current_steps s) \<le>s 8
        \<and> motor_step_pin_state s
        \<longrightarrow> onTimer s = s\<lparr>motor_pulse_counter := 1, step_pin := False,
                            motor_step_pin_state := False,
                            motor_current_steps :=
                              (if motor_direction s then motor_current_steps s + 1
                               else motor_current_steps s - 1)\<rparr>)"
    using inv by (simp add: onTimer_def tolerance_steps Let_def)
  have tol: "- 2147483648 < sint (motor_target_steps s) - sint (motor_current_steps s)
        \<and> sint (motor_target_steps s) - sint (motor_current_steps s) < 2147483648
        \<longrightarrow> (abs32 (motor_target_steps s - motor_current_steps s) \<le>s 8)
            = (\<bar>sint (motor_target_steps s) - sint (motor_current_steps s)\<bar> \<le> 8)"
    using within_tolerance_signed [of "motor_target_steps s" "motor_current_steps s"] by blast
  have up: "sint (motor_current_steps s) < 2147483647
        \<longrightarrow> sint (motor_current_steps s + 1) = sint (motor_current_steps s) + 1"
    and dn: "- 2147483648 < sint (motor_current_steps s)
        \<longrightarrow> sint (motor_current_steps s - 1) = sint (motor_current_steps s) - 1"
    using sint_succ_pred [of "motor_current_steps s"] by blast+
  from tick tol up dn show ?thesis by blast
qed

theorem C1_onTimer_tick_witness:
  "reachableB ex_idle \<and> \<not> motor_in_motion ex_idle \<and> onTimer ex_idle = ex_idle
   \<and> reachableB (ex_goto ''g0.008'') \<and> motor_in_motion (ex_goto ''g0.008'')
   \<and> abs32 (motor_target_steps (ex_goto ''g0.008'') - motor_current_steps (ex_goto ''g0.008''))
        \<le>s 8
   \<and> \<not> motor_in_motion (onTimer (ex_goto ''g0.008''))
   \<and> motor_motion_complete_flag (onTimer (ex_goto ''g0.008''))
   \<and> \<not> step_pin (onTimer (ex_goto ''g0.008''))
   \<and> reachableB (ex_goto ''g1'') \<and> motor_in_motion (ex_goto ''g1'')
   \<and> \<not> abs32 (motor_target_steps (ex_goto ''g1'') - motor_current_steps (ex_goto ''g1'')) \<le>s 8
   \<and> \<not> motor_step_pin_state (ex_goto ''g1'')
   \<and> step_pin (onTimer (ex_goto ''g1''))
   \<and> motor_current_steps (onTimer (ex_goto ''g1'')) = 0
   \<and> \<not> step_pin (onTimer (onTimer (ex_goto ''g1'')))
   \<and> motor_current_steps (onTimer (onTimer (ex_goto ''g1''))) = 1
   \<and> reachableB ex_high \<and> motor_step_pin_state ex_high
   \<and> \<not> step_pin (onTimer ex_high) \<and> motor_current_steps (onTimer ex_high) = 1
   \<and> sint (motor_target_steps (ex_goto ''g1'')) - sint (motor_current_steps (ex_goto ''g1''))
       = 1089
   \<and> (abs32 (motor_target_steps (ex_goto ''g1'') - motor_current_steps (ex_goto ''g1'')) \<le>s 8)
       = (\<bar>sint (motor_target_steps (ex_goto ''g1''))
            - sint (motor_current_steps (ex_goto ''g1''))\<bar> \<le> 8)
   \<and> sint (motor_current_steps ex_high) = 0
   \<and> sint (motor_current_steps ex_high + 1) = sint (motor_current_steps ex_high) + 1"
proof -
  note f = ex_tick_facts
  have s1: "sint (motor_target_steps (ex_goto ''g1'')) - sint (motor_current_steps (ex_goto ''g1''))
       = 1089"
    and s2: "sint (motor_current_steps ex_high) = 0"
    by (simp_all add: ex_goto_g1 ex_high_eq ex_idle_eq)
  have "- 2147483648
          < sint (motor_target_steps (ex_goto ''g1'')) - sint (motor_current_steps (ex_goto ''g1''))
        \<and> sint (motor_target_steps (ex_goto ''g1'')) - sint (motor_current_steps (ex_goto ''g1''))
          < 2147483648"
    by (simp only: s1) simp
  then have s3: "(abs32 (motor_target_steps (ex_goto ''g1'') - motor_current_steps (ex_goto ''g1''))
           \<le>s 8)
       = (\<bar>sint (motor_target_steps (ex_goto ''g1''))
            - sint (motor_current_steps (ex_goto ''g1''))\<bar> \<le> 8)"
    using C1_onTimer_tick [OF reachable_examples(2) [of "''g1''"]] by blast
  have "sint (motor_current_steps ex_high) < 2147483647"
    by (simp only: s2)
  then have s4: "sint (motor_current_steps ex_high + 1) = sint (motor_current_steps ex_high) + 1"
    using C1_onTimer_tick [OF reachable_examples(3)] by blast
  have a: "onTimer ex_idle = ex_idle"
    using C1_onTimer_tick [OF reachable_examples(1)] f(1) by blast
  have b: "onTimer (ex_goto ''g0.008'')
           = (ex_goto ''g0.008'')\<lparr>motor_in_motion := False, motor_motion_complete_flag := True,
                                   step_pin := False\<rparr>"
    using C1_onTimer_tick [OF reachable_examples(2) [of "''g0.008''"]] f(2) f(3) by blast
  have c: "onTimer (ex_goto ''g1'')
           = (ex_goto ''g1'')\<lparr>step_pin := True, motor_step_pin_state := True,
                               motor_pulse_counter := 0\<rparr>"
      "\<not> step_pin (onTimer (onTimer (ex_goto ''g1'')))"
      "motor_current_steps (onTimer (onTimer (ex_goto ''g1'')))
         = (if motor_direction (ex_goto ''g1'') then motor_current_steps (ex_goto ''g1'') + 1
            else motor_current_steps (ex_goto ''g1'') - 1)"
    using C1_onTimer_tick [OF reachable_examples(2) [of "''g1''"]] f(4) f(5) f(6) by blast+
  have d: "onTimer ex_high
           = ex_high\<lparr>motor_pulse_counter := 1, step_pin := False,
                      motor_step_pin_state := False,
                      motor_current_steps :=
                        (if motor_direction ex_high then motor_current_steps ex_high + 1
                         else motor_current_steps ex_high - 1)\<rparr>"
    using C1_onTimer_tick [OF reachable_examples(3)] f(9) f(10) f(11) by blast
  have b1: "\<not> motor_in_motion (onTimer (ex_goto ''g0.008''))"
    and b2: "motor_motion_complete_flag (onTimer (ex_goto ''g0.008''))"
    and b3: "\<not> step_pin (onTimer (ex_goto ''g0.008''))"
    by (simp_all add: b)
  have c1: "step_pin (onTimer (ex_goto ''g1''))"
    and c2: "motor_current_steps (onTimer (ex_goto ''g1'')) = 0"
    by (simp_all add: c(1) f)
  have c3: "motor_current_steps (onTimer (onTimer (ex_goto ''g1''))) = 1"
    using c(3) by (simp add: f)
  have d1: "\<not> step_pin (onTimer ex_high)"
    and d2: "motor_current_steps (onTimer ex_high) = 1"
    by (simp_all add: d f)
  show ?thesis
    by (intro conjI) (fact a b1 b2 b3 c1 c2 c(2) c3 d1 d2 s1 s2 s3 s4 f reachable_examples)+
qed

subsection \<open>Quadrature decoder\<close>

lemma quad_index:
  "unat (push_bit 2 (ab_code a0 b0) OR ab_code a b) < 16"
  by (cases a0; cases b0; cases a; cases b; simp add: ab_code_cases)

text \<open>The table agrees with the decoding rule on all sixteen transitions.\<close>

lemma quad_lookup:
  "quad_table ! unat (push_bit 2 (ab_code a0 b0) OR ab_code a b) = quad_step a0 b0 a b"
  by (cases a0; cases b0; cases a; cases b;
      simp add: ab_code_cases quad_table_def quad_step_def one_channel_changed_def)

lemma quad_table_entries: "length quad_table = 16" "set quad_table = {- 1, 0, 1}"
  by (auto simp: quad_table_def)

lemma handleEncoderChange_step:
  assumes "encoder_last_ab s = ab_code (last_a s) (last_b s)"
  shows "handleEncoderChange a b s
         = s\<lparr>encoder_counts := encoder_counts s + word_of_int (quad_step (last_a s) (last_b s) a b),
              encoder_last_ab := ab_code a b\<rparr>"
proof -
  have "quad_table ! unat (push_bit 2 (encoder_last_ab s) OR ab_code a b)
        = quad_step (last_a s) (last_b s) a b"
    by (subst assms) (rule quad_lookup)
  then show ?thesis by (simp add: handleEncoderChange_def Let_def)
qed

lemma last_after_edge:
  "last_a (handleEncoderChange a b s) = a" "last_b (handleEncoderChange a b s) = b"
  "encoder_last_ab (handleEncoderChange a b s) = ab_code a b"
  by (simp_all add: last_a_def last_b_def handleEncoderChange_def Let_def ab_code_bits)

lemma run_edges_counts:
  assumes "encoder_last_ab s = ab_code (last_a s) (last_b s)"
  shows "encoder_counts (run_edges es s)
         = encoder_counts s + word_of_int (sum_list (edge_steps (last_a s) (last_b s) es))"
  using assms
proof (induction es arbitrary: s)
  case Nil
  then show ?case by simp
next
  case (Cons e es)
  obtain a b where e: "e = (a, b)" by (cases e)
  let ?s1 = "handleEncoderChange a b s"
  have l: "encoder_last_ab ?s1 = ab_code (last_a ?s1) (last_b ?s1)"
    by (simp add: last_after_edge)
  have c: "encoder_counts ?s1
           = encoder_counts s + word_of_int (quad_step (last_a s) (last_b s) a b)"
    by (simp add: handleEncoderChange_step [OF Cons.prems])
  show ?case
    using Cons.IH [OF l] by (simp add: e c last_after_edge add.assoc)
qed

lemma forward_only_sum:
  "\<forall>d \<in> set (edge_steps a0 b0 es). 0 \<le> d \<Longrightarrow>
   sum_list (edge_steps a0 b0 es) = int (valid_edges a0 b0 es)"
proof (induction es arbitrary: a0 b0)
  case Nil
  then show ?case by simp
next
  case (Cons e es)
  obtain a b where e: "e = (a, b)" by (cases e)
  from Cons.prems have h: "0 \<le> quad_step a0 b0 a b"
    and t: "\<forall>d \<in> set (edge_steps a b es). 0 \<le> d"
    by (simp_all add: e)
  have "quad_step a0 b0 a b = (if one_channel_changed a0 b0 a b then 1 else 0)"
    using h by (auto simp: quad_step_def split: if_splits)
  then show ?case using Cons.IH [OF t] by (simp add: e)
qed

lemma reverse_only_sum:
  "\<forall>d \<in> set (edge_steps a0 b0 es). d \<le> 0 \<Longrightarrow>
   sum_list (edge_steps a0 b0 es) = - int (valid_edges a0 b0 es)"
proof (induction es arbitrary: a0 b0)
  case Nil
  then show ?case by simp
next
  case (Cons e es)
  obtain a b where e: "e = (a, b)" by (cases e)
  from Cons.prems have h: "quad_step a0 b0 a b \<le> 0"
    and t: "\<forall>d \<in> set (edge_steps a b es). d \<le> 0"
    by (simp_all add: e)
  have "quad_step a0 b0 a b = (if one_channel_changed a0 b0 a b then - 1 else 0)"
    using h by (auto simp: quad_step_def split: if_splits)
  then show ?case using Cons.IH [OF t] by (simp add: e)
qed

text \<open>
  C2: in every reachable state, an encoder edge adds to the raw count the entry of
  the 16-entry table at index \<open>(last_ab << 2) | curr\<close> and stores \<open>curr\<close>; the index
  is below 16; the entries of the table are exactly \<open>-1\<close>, \<open>0\<close> and \<open>+1\<close>; the
  entry is 0 when neither or both channels changed (the invalid transitions) and
  \<open>+1\<close> or \<open>-1\<close> when exactly one changed (a valid edge). For a sequence of edges
  the count changes by the sum of the decoded increments. When no transition of the
  sequence decodes as a reverse edge (the sequence is consistent with forward
  rotation), the count increases by the number of valid edges, every other
  transition contributing 0; without overflow this is an increase of the signed
  value. Symmetrically for a sequence with no forward edge.
\<close>

theorem C2_quadrature_decoder:
  assumes "reachableB s"
  shows "handleEncoderChange a b s
           = s\<lparr>encoder_counts := encoder_counts s
                   + word_of_int (quad_table ! unat (push_bit 2 (encoder_last_ab s) OR ab_code a b)),
                encoder_last_ab := ab_code a b\<rparr>
    \<and> encoder_last_ab s = ab_code (last_a s) (last_b s)
    \<and> length quad_table = 16
    \<and> unat (push_bit 2 (encoder_last_ab s) OR ab_code a b) < 16
    \<and> set quad_table = {- 1, 0, 1}
    \<and> quad_table ! unat (push_bit 2 (encoder_last_ab s) OR ab_code a b)
        = quad_step (last_a s) (last_b s) a b
    \<and> (\<not> one_channel_changed (last_a s) (last_b s) a b
        \<longrightarrow> encoder_counts (handleEncoderChange a b s) = encoder_counts s)
    \<and> (one_channel_changed (last_a s) (last_b s) a b
        \<longrightarrow> encoder_counts (handleEncoderChange a b s)
              = encoder_counts s + (if a \<noteq> last_b s then 1 else - 1))
    \<and> encoder_counts (run_edges es s)
        = encoder_counts s + word_of_int (sum_list (edge_steps (last_a s) (last_b s) es))
    \<and> ((\<forall>d \<in> set (edge_steps (last_a s) (last_b s) es). 0 \<le> d)
        \<longrightarrow> encoder_counts (run_edges es s)
              = encoder_counts s + of_nat (valid_edges (last_a s) (last_b s) es)
            \<and> (sint (encoder_counts s) + int (valid_edges (last_a s) (last_b s) es) < 2147483648
                \<longrightarrow> sint (encoder_counts (run_edges es s))
                      = sint (encoder_counts s) + int (valid_edges (last_a s) (last_b s) es)))
    \<and> ((\<forall>d \<in> set (edge_steps (last_a s) (last_b s) es). d \<le> 0)
        \<longrightarrow> encoder_counts (run_edges es s)
              = encoder_counts s - of_nat (valid_edges (last_a s) (last_b s) es)
            \<and> (- 2147483648 \<le> sint (encoder_counts s) - int (valid_edges (last_a s) (last_b s) es)
                \<longrightarrow> sint (encoder_counts (run_edges es s))
                      = sint (encoder_counts s) - int (valid_edges (last_a s) (last_b s) es)))"
proof -
  have l: "encoder_last_ab s = ab_code (last_a s) (last_b s)"
    using reachableB_invB [OF assms] by (simp add: invB_def)
  note st = handleEncoderChange_step [OF l]
  note run = run_edges_counts [OF l]
  have idx: "unat (push_bit 2 (encoder_last_ab s) OR ab_code a b) < 16"
    by (subst l) (rule quad_index)
  have lk: "quad_table ! unat (push_bit 2 (encoder_last_ab s) OR ab_code a b)
            = quad_step (last_a s) (last_b s) a b"
    by (subst l) (rule quad_lookup)
  have lo: "- 2147483648 \<le> sint (encoder_counts s)" and hi: "sint (encoder_counts s) < 2147483648"
    using sint_ge [of "encoder_counts s"] sint_lt [of "encoder_counts s"] by simp_all
  have fwd: "encoder_counts (run_edges es s)
              = encoder_counts s + of_nat (valid_edges (last_a s) (last_b s) es)
            \<and> (sint (encoder_counts s) + int (valid_edges (last_a s) (last_b s) es) < 2147483648
                \<longrightarrow> sint (encoder_counts (run_edges es s))
                      = sint (encoder_counts s) + int (valid_edges (last_a s) (last_b s) es))"
    if "\<forall>d \<in> set (edge_steps (last_a s) (last_b s) es). 0 \<le> d"
  proof -
    have e: "encoder_counts (run_edges es s)
             = encoder_counts s + word_of_int (int (valid_edges (last_a s) (last_b s) es))"
      by (simp only: run forward_only_sum [OF that])
    have "sint (encoder_counts (run_edges es s))
            = sint (encoder_counts s) + int (valid_edges (last_a s) (last_b s) es)"
      if "sint (encoder_counts s) + int (valid_edges (last_a s) (last_b s) es) < 2147483648"
      unfolding e using that lo by (intro sint_add_small) simp_all
    then show ?thesis by (simp add: e)
  qed
  have bwd: "encoder_counts (run_edges es s)
              = encoder_counts s - of_nat (valid_edges (last_a s) (last_b s) es)
            \<and> (- 2147483648 \<le> sint (encoder_counts s) - int (valid_edges (last_a s) (last_b s) es)
                \<longrightarrow> sint (encoder_counts (run_edges es s))
                      = sint (encoder_counts s) - int (valid_edges (last_a s) (last_b s) es))"
    if "\<forall>d \<in> set (edge_steps (last_a s) (last_b s) es). d \<le> 0"
  proof -
    have e: "encoder_counts (run_edges es s)
             = encoder_counts s + word_of_int (- int (valid_edges (last_a s) (last_b s) es))"
      by (simp only: run reverse_only_sum [OF that])
    have "sint (encoder_counts (run_edges es s))
            = sint (encoder_counts s) + (- int (valid_edges (last_a s) (last_b s) es))"
      if "- 2147483648 \<le> sint (encoder_counts s) - int (valid_edges (last_a s) (last_b s) es)"
      unfolding e using that hi by (intro sint_add_small) simp_all
    then show ?thesis by (simp add: e)
  qed
  have p1: "handleEncoderChange a b s
           = s\<lparr>encoder_counts := encoder_counts s
                   + word_of_int (quad_table ! unat (push_bit 2 (encoder_last_ab s) OR ab_code a b)),
                encoder_last_ab := ab_code a b\<rparr>"
    by (simp add: handleEncoderChange_def Let_def)
  have p2: "\<not> one_channel_changed (last_a s) (last_b s) a b
        \<longrightarrow> encoder_counts (handleEncoderChange a b s) = encoder_counts s"
    by (simp add: st quad_step_def)
  have p3: "one_channel_changed (last_a s) (last_b s) a b
        \<longrightarrow> encoder_counts (handleEncoderChange a b s)
              = encoder_counts s + (if a \<noteq> last_b s then 1 else - 1)"
    by (simp add: st quad_step_def)
  show ?thesis
    by (intro conjI impI p1 l idx lk quad_table_entries run p2 [rule_format] p3 [rule_format]
          fwd [THEN conjunct1] fwd [THEN conjunct2, rule_format]
          bwd [THEN conjunct1] bwd [THEN conjunct2, rule_format]) (assumption | blast)+
qed

theorem C2_quadrature_decoder_witness:
  "reachableB ex_idle
   \<and> edge_steps False False [(True, False), (True, True), (False, True), (False, False)]
       = [1, 1, 1, 1]
   \<and> encoder_counts
        (run_edges [(True, False), (True, True), (False, True), (False, False)] ex_idle) = 4
   \<and> sint (encoder_counts
        (run_edges [(True, False), (True, True), (False, True), (False, False)] ex_idle)) = 4
   \<and> edge_steps False False [(False, True), (True, True), (True, False), (False, False)]
       = [- 1, - 1, - 1, - 1]
   \<and> encoder_counts
        (run_edges [(False, True), (True, True), (True, False), (False, False)] ex_idle) = - 4
   \<and> edge_steps False False [(True, False), (False, True), (False, False)] = [1, 0, 1]
   \<and> encoder_counts (run_edges [(True, False), (False, True), (False, False)] ex_idle) = 2
   \<and> \<not> one_channel_changed False False True True
   \<and> encoder_counts (handleEncoderChange True True ex_idle) = 0
   \<and> one_channel_changed False False True False
   \<and> encoder_counts (handleEncoderChange True False ex_idle) = 1"
proof -
  note r = reachable_examples(1)
  let ?f = "[(True, False), (True, True), (False, True), (False, False)]"
  let ?b = "[(False, True), (True, True), (True, False), (False, False)]"
  let ?g = "[(True, False), (False, True), (False, False)]"
  have sf: "edge_steps False False ?f = [1, 1, 1, 1]"
    and sb: "edge_steps False False ?b = [- 1, - 1, - 1, - 1]"
    and sg: "edge_steps False False ?g = [1, 0, 1]"
    by (simp_all add: quad_step_def one_channel_changed_def)
  have vf: "valid_edges False False ?f = 4" and vb: "valid_edges False False ?b = 4"
    and vg: "valid_edges False False ?g = 2"
    by (simp_all add: one_channel_changed_def)
  have f1: "encoder_counts (run_edges ?f ex_idle) = 4"
    and f2: "sint (encoder_counts (run_edges ?f ex_idle)) = 4"
    using C2_quadrature_decoder [OF r, of False True ?f, unfolded ex_idle_last sf vf]
    by simp_all
  have b1: "encoder_counts (run_edges ?b ex_idle) = - 4"
    using C2_quadrature_decoder [OF r, of True False ?b, unfolded ex_idle_last sb vb]
    by simp
  have g1: "encoder_counts (run_edges ?g ex_idle) = 2"
    using C2_quadrature_decoder [OF r, of False True ?g, unfolded ex_idle_last sg vg]
    by simp
  have n: "\<not> one_channel_changed False False True True"
    and y: "one_channel_changed False False True False"
    by (simp_all add: one_channel_changed_def)
  have "\<not> one_channel_changed (last_a ex_idle) (last_b ex_idle) True True
        \<longrightarrow> encoder_counts (handleEncoderChange True True ex_idle) = encoder_counts ex_idle"
    using C2_quadrature_decoder [OF r, of True True "[]"] by blast
  then have h0: "encoder_counts (handleEncoderChange True True ex_idle) = 0"
    using n by (simp add: ex_idle_last)
  have "one_channel_changed (last_a ex_idle) (last_b ex_idle) True False
        \<longrightarrow> encoder_counts (handleEncoderChange True False ex_idle)
              = encoder_counts ex_idle + (if True \<noteq> last_b ex_idle then 1 else - 1)"
    using C2_quadrature_decoder [OF r, of True False "[]"] by blast
  then have h1: "encoder_counts (handleEncoderChange True False ex_idle) = 1"
    using y by (simp add: ex_idle_last)
  show ?thesis
    by (intro conjI) (fact r sf sb sg f1 f2 b1 g1 n y h0 h1)+
qed

subsection \<open>Closed-loop correction\<close>

text \<open>
  A correction of more than the tolerance and at most \<open>max_error\<close>, in steps: the
  conversion is within range, the move is between 8 and 256 steps, and its sign is
  that of the error.
\<close>

lemma correction_steps_sign:
  assumes "POSITION_TOLERANCE_IN < \<bar>e\<bar>" "\<bar>e\<bar> \<le> MAX_POSITION_ERROR_IN"
  shows "sint (int32_of_real (f32 (e * STEPS_PER_IN))) = trunc_real (f32 (e * STEPS_PER_IN))"
    and "8 \<le> \<bar>trunc_real (f32 (e * STEPS_PER_IN))\<bar>"
    and "\<bar>trunc_real (f32 (e * STEPS_PER_IN))\<bar> \<le> 256"
    and "(0 <s int32_of_real (f32 (e * STEPS_PER_IN))) = (0 < e)"
proof -
  have sp: "STEPS_PER_IN = 4462605 / 4096" by (rule STEPS_PER_IN_value)
  have tol: "2113665 / 268435456 < \<bar>e\<bar>" using assms(1) by (simp only: constant_values)
  have mx: "\<bar>e\<bar> \<le> 13421773 / 67108864" using assms(2) by (simp only: constant_values)
  define a where "a = \<bar>e\<bar> * STEPS_PER_IN"
  have a8: "8 \<le> a" and a256: "a \<le> 256"
    using tol mx by (simp_all add: a_def sp)
  define y where "y = f32 a"
  have y8: "8 \<le> y" and y256: "y \<le> 256"
    unfolding y_def using f32_between [OF a8 a256] by blast+
  have fl: "8 \<le> \<lfloor>y\<rfloor>" "\<lfloor>y\<rfloor> \<le> 256"
    using y8 y256 by (simp_all add: le_floor_iff floor_le_iff)
  have all: "sint (int32_of_real (f32 (e * STEPS_PER_IN))) = trunc_real (f32 (e * STEPS_PER_IN))
    \<and> 8 \<le> \<bar>trunc_real (f32 (e * STEPS_PER_IN))\<bar>
    \<and> \<bar>trunc_real (f32 (e * STEPS_PER_IN))\<bar> \<le> 256
    \<and> (0 <s int32_of_real (f32 (e * STEPS_PER_IN))) = (0 < e)"
  proof (cases "0 < e")
    case True
    then have x: "f32 (e * STEPS_PER_IN) = y" by (simp add: y_def a_def)
    have t: "trunc_real y = \<lfloor>y\<rfloor>" using y8 by (simp add: trunc_real_def)
    have s: "sint (int32_of_real y) = trunc_real y"
      using y8 y256 by (intro sint_int32_of_real) simp
    show ?thesis
      unfolding x using True fl by (simp add: word_sless_alt s t)
  next
    case False
    then have neg: "e < 0" using tol by simp
    then have "e * STEPS_PER_IN = - a" by (simp add: a_def)
    then have x: "f32 (e * STEPS_PER_IN) = - y" by (simp add: y_def f32_minus)
    have t: "trunc_real (- y) = - \<lfloor>y\<rfloor>" using y8 by (simp add: trunc_real_def)
    have s: "sint (int32_of_real (- y)) = trunc_real (- y)"
      using y8 y256 by (intro sint_int32_of_real) simp
    show ?thesis
      unfolding x using False fl by (simp add: word_sless_alt s t)
  qed
  from all show "sint (int32_of_real (f32 (e * STEPS_PER_IN))) = trunc_real (f32 (e * STEPS_PER_IN))"
    and "8 \<le> \<bar>trunc_real (f32 (e * STEPS_PER_IN))\<bar>"
    and "\<bar>trunc_real (f32 (e * STEPS_PER_IN))\<bar> \<le> 256"
    and "(0 <s int32_of_real (f32 (e * STEPS_PER_IN))) = (0 < e)"
    by blast+
qed

text \<open>The rounded difference of two positions has the sign of the difference.\<close>

lemma error_sign:
  assumes "f32 (t - p) \<noteq> 0"
  shows "(0 < f32 (t - p)) = (p < t)"
proof (cases "p < t")
  case True
  then have "0 \<le> f32 (t - p)" by (intro f32_sign) simp
  then show ?thesis using True assms by simp
next
  case False
  then have "f32 (t - p) \<le> 0" by (intro f32_sign) simp
  then show ?thesis using False by simp
qed

text \<open>
  \<^verbatim>\<open>setup()\<close> sets \<open>closed_loop_enabled\<close> to \<open>encoder.detected\<close> and nothing writes
  either afterwards: whenever \<^verbatim>\<open>loop()\<close> calls the correction routine, from any
  reachable state and under any inputs, the encoder is detected and closed-loop
  correction is enabled.
\<close>

lemma correction_call_state:
  assumes "reachableB s"
  shows "encoder_detected
           ((updateResetButton now_btn lvl (updateEncoder now_enc s))
              \<lparr>motor_motion_complete_flag := False\<rparr>)
       \<and> motor_closed_loop_enabled
           ((updateResetButton now_btn lvl (updateEncoder now_enc s))
              \<lparr>motor_motion_complete_flag := False\<rparr>)"
proof -
  have "isr_view ((updateResetButton now_btn lvl (updateEncoder now_enc s))
                    \<lparr>motor_motion_complete_flag := False\<rparr>) = isr_view s"
    by simp
  then show ?thesis
    using reachableB_invB [OF assms] by (simp add: isr_view_def invB_def)
qed

text \<open>
  C3: with the encoder detected and closed-loop correction enabled (the state of
  every call, see above), let \<open>e\<close> be the error the routine computes, the binary32
  difference \<open>target_position - encoder_position\<close>. If
  \<open>tolerance < |e| \<le> max_error\<close> (the binary32 constants \<^verbatim>\<open>0.2f / 25.4f\<close> and
  \<^verbatim>\<open>0.200f\<close>) and the encoder position in steps is within the range of
  \<^verbatim>\<open>int32_t\<close>, the correction routine waits the settle delay (50 ms), sets
  \<open>current_steps\<close> to the integer part of the encoder position in steps, sets
  \<open>target_steps\<close> to \<open>current_steps\<close> plus the integer part of \<open>e\<close> in steps (a move of
  8 to 256 steps; the products are binary32 products), sets the direction and the
  direction pin to forward exactly when \<open>e\<close> is positive, which is when the target
  lies beyond the encoder position, sets the velocity to the binary32 product of
  the base velocity and \<open>CORRECTION_VELOCITY_SCALE\<close> but at least
  \<open>MIN_CORRECTION_VEL_IPS\<close>, leaves the base velocity, programs the step interval
  and the timer alarm for that velocity (a step rate of at least 10 per second),
  announces the correction and sets \<open>in_motion\<close>.
\<close>

theorem C3_correction_move:
  assumes "encoder_detected s" and "motor_closed_loop_enabled s"
    and "POSITION_TOLERANCE_IN
           < \<bar>f32 (motor_target_position_in s - encoder_position_in s)\<bar>"
    and "\<bar>f32 (motor_target_position_in s - encoder_position_in s)\<bar>
           \<le> MAX_POSITION_ERROR_IN"
    and "\<bar>f32 (encoder_position_in s * STEPS_PER_IN)\<bar> < 2147483648"
  shows "delayed_ms (closedLoopCorrection s) = delayed_ms s + CORRECTION_SETTLE_MS
    \<and> 0 < CORRECTION_SETTLE_MS
    \<and> motor_current_steps (closedLoopCorrection s)
        = int32_of_real (f32 (encoder_position_in s * STEPS_PER_IN))
    \<and> sint (motor_current_steps (closedLoopCorrection s))
        = trunc_real (f32 (encoder_position_in s * STEPS_PER_IN))
    \<and> motor_target_steps (closedLoopCorrection s)
        = motor_current_steps (closedLoopCorrection s)
          + int32_of_real
              (f32 (f32 (motor_target_position_in s - encoder_position_in s) * STEPS_PER_IN))
    \<and> sint (int32_of_real
              (f32 (f32 (motor_target_position_in s - encoder_position_in s) * STEPS_PER_IN)))
        = trunc_real
            (f32 (f32 (motor_target_position_in s - encoder_position_in s) * STEPS_PER_IN))
    \<and> 8 \<le> \<bar>trunc_real
            (f32 (f32 (motor_target_position_in s - encoder_position_in s) * STEPS_PER_IN))\<bar>
    \<and> \<bar>trunc_real
            (f32 (f32 (motor_target_position_in s - encoder_position_in s) * STEPS_PER_IN))\<bar>
        \<le> 256
    \<and> motor_direction (closedLoopCorrection s)
        = (0 < f32 (motor_target_position_in s - encoder_position_in s))
    \<and> dir_pin (closedLoopCorrection s)
        = (0 < f32 (motor_target_position_in s - encoder_position_in s))
    \<and> (0 < f32 (motor_target_position_in s - encoder_position_in s))
        = (encoder_position_in s < motor_target_position_in s)
    \<and> motor_velocity_ips (closedLoopCorrection s)
        = max MIN_CORRECTION_VEL_IPS
              (f32 (motor_base_velocity_ips s * CORRECTION_VELOCITY_SCALE))
    \<and> motor_base_velocity_ips (closedLoopCorrection s) = motor_base_velocity_ips s
    \<and> motor_step_interval_us (closedLoopCorrection s)
        = uint32_of_real
            (f64 (1000000
                  / max 10 (f32 (motor_velocity_ips (closedLoopCorrection s) * STEPS_PER_IN))))
    \<and> timer_alarm (closedLoopCorrection s)
        = motor_step_interval_us (closedLoopCorrection s) div 2
    \<and> motor_in_motion (closedLoopCorrection s)
    \<and> txB (closedLoopCorrection s)
        = txB s @ [Correcting (f32 (motor_target_position_in s - encoder_position_in s))
                              (motor_target_position_in s)]"
proof -
  let ?e = "f32 (motor_target_position_in s - encoder_position_in s)"
  note det = assms(1)
  note sgn = correction_steps_sign [OF assms(3) assms(4)]
  have n1: "\<not> \<bar>?e\<bar> \<le> POSITION_TOLERANCE_IN"
    using assms(3) by simp
  have n2: "\<not> \<bar>?e\<bar> > MAX_POSITION_ERROR_IN"
    using assms(4) by simp
  have "0 < POSITION_TOLERANCE_IN" by (simp add: constant_values)
  then have "?e \<noteq> 0" using assms(3) by auto
  then have es: "(0 < ?e) = (encoder_position_in s < motor_target_position_in s)"
    by (rule error_sign)
  have cur: "sint (int32_of_real (f32 (encoder_position_in s * STEPS_PER_IN)))
             = trunc_real (f32 (encoder_position_in s * STEPS_PER_IN))"
    using assms(5) by (rule sint_int32_of_real)
  have state: "delayed_ms (closedLoopCorrection s) = delayed_ms s + CORRECTION_SETTLE_MS
    \<and> 0 < CORRECTION_SETTLE_MS
    \<and> motor_current_steps (closedLoopCorrection s)
        = int32_of_real (f32 (encoder_position_in s * STEPS_PER_IN))
    \<and> motor_target_steps (closedLoopCorrection s)
        = motor_current_steps (closedLoopCorrection s) + int32_of_real (f32 (?e * STEPS_PER_IN))
    \<and> motor_direction (closedLoopCorrection s) = (0 < ?e)
    \<and> dir_pin (closedLoopCorrection s) = (0 < ?e)
    \<and> motor_velocity_ips (closedLoopCorrection s)
        = max MIN_CORRECTION_VEL_IPS
              (f32 (motor_base_velocity_ips s * CORRECTION_VELOCITY_SCALE))
    \<and> motor_base_velocity_ips (closedLoopCorrection s) = motor_base_velocity_ips s
    \<and> motor_step_interval_us (closedLoopCorrection s)
        = uint32_of_real
            (f64 (1000000
                  / max 10 (f32 (motor_velocity_ips (closedLoopCorrection s) * STEPS_PER_IN))))
    \<and> timer_alarm (closedLoopCorrection s)
        = motor_step_interval_us (closedLoopCorrection s) div 2
    \<and> motor_in_motion (closedLoopCorrection s)
    \<and> txB (closedLoopCorrection s) = txB s @ [Correcting ?e (motor_target_position_in s)]"
    using det n1 n2 sgn(4)
    by (simp add: closedLoopCorrection_def Let_def delay_def syncMotorStepsWithEncoder_def
          sendResponseB_def updateTimerFrequency_def CORRECTION_SETTLE_MS_def max_def not_less)
  have cur': "sint (motor_current_steps (closedLoopCorrection s))
              = trunc_real (f32 (encoder_position_in s * STEPS_PER_IN))"
    using state cur by simp
  from state cur' sgn(1) sgn(2) sgn(3) es show ?thesis by blast
qed

theorem C3_correction_move_witness:
  "reachableB (ex_goto ''g0.2'') \<and> encoder_detected (ex_goto ''g0.2'')
   \<and> motor_closed_loop_enabled (ex_goto ''g0.2'')
   \<and> f32 (motor_target_position_in (ex_goto ''g0.2'') - encoder_position_in (ex_goto ''g0.2''))
        = MAX_POSITION_ERROR_IN
   \<and> POSITION_TOLERANCE_IN
        < \<bar>f32 (motor_target_position_in (ex_goto ''g0.2'')
                 - encoder_position_in (ex_goto ''g0.2''))\<bar>
   \<and> \<bar>f32 (motor_target_position_in (ex_goto ''g0.2'')
            - encoder_position_in (ex_goto ''g0.2''))\<bar> \<le> MAX_POSITION_ERROR_IN
   \<and> \<bar>f32 (encoder_position_in (ex_goto ''g0.2'') * STEPS_PER_IN)\<bar> < 2147483648
   \<and> delayed_ms (closedLoopCorrection (ex_goto ''g0.2'')) = 552
   \<and> motor_current_steps (closedLoopCorrection (ex_goto ''g0.2'')) = 0
   \<and> motor_target_steps (closedLoopCorrection (ex_goto ''g0.2'')) = 217
   \<and> motor_direction (closedLoopCorrection (ex_goto ''g0.2''))
   \<and> dir_pin (closedLoopCorrection (ex_goto ''g0.2''))
   \<and> motor_velocity_ips (closedLoopCorrection (ex_goto ''g0.2'')) = MIN_CORRECTION_VEL_IPS
   \<and> motor_step_interval_us (closedLoopCorrection (ex_goto ''g0.2'')) = 100000
   \<and> timer_alarm (closedLoopCorrection (ex_goto ''g0.2'')) = 50000
   \<and> motor_in_motion (closedLoopCorrection (ex_goto ''g0.2''))
   \<and> reachableB (ex_goto ''g0.103717'') \<and> encoder_detected (ex_goto ''g0.103717'')
   \<and> motor_closed_loop_enabled (ex_goto ''g0.103717'')
   \<and> f32 (motor_target_position_in (ex_goto ''g0.103717'')
           - encoder_position_in (ex_goto ''g0.103717'')) = f32 0.103717
   \<and> POSITION_TOLERANCE_IN
        < \<bar>f32 (motor_target_position_in (ex_goto ''g0.103717'')
                 - encoder_position_in (ex_goto ''g0.103717''))\<bar>
   \<and> \<bar>f32 (motor_target_position_in (ex_goto ''g0.103717'')
            - encoder_position_in (ex_goto ''g0.103717''))\<bar> \<le> MAX_POSITION_ERROR_IN
   \<and> \<bar>f32 (encoder_position_in (ex_goto ''g0.103717'') * STEPS_PER_IN)\<bar> < 2147483648
   \<and> motor_current_steps (closedLoopCorrection (ex_goto ''g0.103717'')) = 0
   \<and> motor_target_steps (closedLoopCorrection (ex_goto ''g0.103717'')) = 113"
proof -
  note f = ex_goto_g02_facts
  note g = ex_goto_g0103717_facts
  have e0: "f32 (motor_target_position_in (ex_goto ''g0.2'')
                 - encoder_position_in (ex_goto ''g0.2'')) = MAX_POSITION_ERROR_IN"
    and h1: "POSITION_TOLERANCE_IN
        < \<bar>f32 (motor_target_position_in (ex_goto ''g0.2'')
                 - encoder_position_in (ex_goto ''g0.2''))\<bar>"
    and h2: "\<bar>f32 (motor_target_position_in (ex_goto ''g0.2'')
            - encoder_position_in (ex_goto ''g0.2''))\<bar> \<le> MAX_POSITION_ERROR_IN"
    and h3: "\<bar>f32 (encoder_position_in (ex_goto ''g0.2'') * STEPS_PER_IN)\<bar> < 2147483648"
    by (simp_all only: f(2) f(3)) code_simp+
  have v1: "int32_of_real (f32 (encoder_position_in (ex_goto ''g0.2'') * STEPS_PER_IN)) = 0"
    and v2: "int32_of_real
               (f32 (f32 (motor_target_position_in (ex_goto ''g0.2'')
                          - encoder_position_in (ex_goto ''g0.2'')) * STEPS_PER_IN)) = 217"
    and v3: "(0 < f32 (motor_target_position_in (ex_goto ''g0.2'')
                       - encoder_position_in (ex_goto ''g0.2''))) = True"
    and v4: "max MIN_CORRECTION_VEL_IPS
               (f32 (motor_base_velocity_ips (ex_goto ''g0.2'') * CORRECTION_VELOCITY_SCALE))
             = MIN_CORRECTION_VEL_IPS"
    and v5: "uint32_of_real
               (f64 (1000000 / max 10 (f32 (MIN_CORRECTION_VEL_IPS * STEPS_PER_IN)))) = 100000"
    by (simp_all only: f(2) f(3) f(4)) code_simp+
  note t = C3_correction_move [OF f(6) f(1) h1 h2 h3]
  have c1: "delayed_ms (closedLoopCorrection (ex_goto ''g0.2'')) = 552"
    using t by (simp add: f CORRECTION_SETTLE_MS_def)
  have c2': "motor_current_steps (closedLoopCorrection (ex_goto ''g0.2''))
        = int32_of_real (f32 (encoder_position_in (ex_goto ''g0.2'') * STEPS_PER_IN))"
    using t by blast
  have c2: "motor_current_steps (closedLoopCorrection (ex_goto ''g0.2'')) = 0"
    by (simp only: c2' v1)
  have c3': "motor_target_steps (closedLoopCorrection (ex_goto ''g0.2''))
        = motor_current_steps (closedLoopCorrection (ex_goto ''g0.2''))
          + int32_of_real
              (f32 (f32 (motor_target_position_in (ex_goto ''g0.2'')
                         - encoder_position_in (ex_goto ''g0.2'')) * STEPS_PER_IN))"
    using t by blast
  have c3: "motor_target_steps (closedLoopCorrection (ex_goto ''g0.2'')) = 217"
    by (simp only: c3' c2 v2) simp
  have c4': "motor_direction (closedLoopCorrection (ex_goto ''g0.2''))
        = (0 < f32 (motor_target_position_in (ex_goto ''g0.2'')
                    - encoder_position_in (ex_goto ''g0.2'')))"
    and c4'': "dir_pin (closedLoopCorrection (ex_goto ''g0.2''))
        = (0 < f32 (motor_target_position_in (ex_goto ''g0.2'')
                    - encoder_position_in (ex_goto ''g0.2'')))"
    using t by blast+
  have c4: "motor_direction (closedLoopCorrection (ex_goto ''g0.2''))"
    and c4p: "dir_pin (closedLoopCorrection (ex_goto ''g0.2''))"
    by (simp_all only: c4' c4'' v3)
  have c5': "motor_velocity_ips (closedLoopCorrection (ex_goto ''g0.2''))
        = max MIN_CORRECTION_VEL_IPS
              (f32 (motor_base_velocity_ips (ex_goto ''g0.2'') * CORRECTION_VELOCITY_SCALE))"
    using t by blast
  have c5: "motor_velocity_ips (closedLoopCorrection (ex_goto ''g0.2'')) = MIN_CORRECTION_VEL_IPS"
    by (simp only: c5' v4)
  have c6': "motor_step_interval_us (closedLoopCorrection (ex_goto ''g0.2''))
        = uint32_of_real
            (f64 (1000000
                  / max 10 (f32 (motor_velocity_ips (closedLoopCorrection (ex_goto ''g0.2''))
                                 * STEPS_PER_IN))))"
    and c7': "timer_alarm (closedLoopCorrection (ex_goto ''g0.2''))
        = motor_step_interval_us (closedLoopCorrection (ex_goto ''g0.2'')) div 2"
    using t by blast+
  have c6: "motor_step_interval_us (closedLoopCorrection (ex_goto ''g0.2'')) = 100000"
    by (simp only: c6' c5 v5)
  have c7: "timer_alarm (closedLoopCorrection (ex_goto ''g0.2'')) = 50000"
    by (simp only: c7' c6) simp
  have c8: "motor_in_motion (closedLoopCorrection (ex_goto ''g0.2''))"
    using t by blast
  have e1: "f32 (motor_target_position_in (ex_goto ''g0.103717'')
           - encoder_position_in (ex_goto ''g0.103717'')) = f32 0.103717"
    and k1: "POSITION_TOLERANCE_IN
        < \<bar>f32 (motor_target_position_in (ex_goto ''g0.103717'')
                 - encoder_position_in (ex_goto ''g0.103717''))\<bar>"
    and k2: "\<bar>f32 (motor_target_position_in (ex_goto ''g0.103717'')
            - encoder_position_in (ex_goto ''g0.103717''))\<bar> \<le> MAX_POSITION_ERROR_IN"
    and k3: "\<bar>f32 (encoder_position_in (ex_goto ''g0.103717'') * STEPS_PER_IN)\<bar> < 2147483648"
    by (simp_all only: g(2) g(3)) code_simp+
  have w1: "int32_of_real (f32 (encoder_position_in (ex_goto ''g0.103717'') * STEPS_PER_IN)) = 0"
    and w2: "int32_of_real
               (f32 (f32 (motor_target_position_in (ex_goto ''g0.103717'')
                          - encoder_position_in (ex_goto ''g0.103717'')) * STEPS_PER_IN)) = 113"
    by (simp_all only: g(2) g(3)) code_simp+
  note u = C3_correction_move [OF g(4) g(1) k1 k2 k3]
  have d2': "motor_current_steps (closedLoopCorrection (ex_goto ''g0.103717''))
        = int32_of_real (f32 (encoder_position_in (ex_goto ''g0.103717'') * STEPS_PER_IN))"
    using u by blast
  have d2: "motor_current_steps (closedLoopCorrection (ex_goto ''g0.103717'')) = 0"
    by (simp only: d2' w1)
  have d3': "motor_target_steps (closedLoopCorrection (ex_goto ''g0.103717''))
        = motor_current_steps (closedLoopCorrection (ex_goto ''g0.103717''))
          + int32_of_real
              (f32 (f32 (motor_target_position_in (ex_goto ''g0.103717'')
                         - encoder_position_in (ex_goto ''g0.103717'')) * STEPS_PER_IN))"
    using u by blast
  have d3: "motor_target_steps (closedLoopCorrection (ex_goto ''g0.103717'')) = 113"
    by (simp only: d3' d2 w2) simp
  show ?thesis
    by (intro conjI)
       (fact reachable_examples f g e0 h1 h2 h3 c1 c2 c3 c4 c4p c5 c6 c7 c8 e1 k1 k2 k3 d2 d3)+
qed

text \<open>
  C4: with \<open>e\<close> the binary32 difference \<open>target_position - encoder_position\<close> that
  the routine computes and \<open>max_error\<close> the binary32 constant \<^verbatim>\<open>0.200f\<close>
  (\<open>13421773 / 67108864\<close>): an error whose absolute value equals \<open>max_error\<close> starts
  a correction (\<open>in_motion\<close> becomes true, the only line sent is the correction
  notice). An error whose absolute value exceeds \<open>max_error\<close> sends the alarm line
  followed by the stopped line, clears \<open>in_motion\<close> and, apart from the settle
  delay, changes nothing else: target position, target and current steps,
  direction, velocity and timer are as before.
\<close>

theorem C4_alarm_boundary:
  "(\<bar>f32 (motor_target_position_in s - encoder_position_in s)\<bar> = MAX_POSITION_ERROR_IN
      \<longrightarrow> motor_in_motion (closedLoopCorrection s)
          \<and> txB (closedLoopCorrection s)
              = txB s @ [Correcting (f32 (motor_target_position_in s - encoder_position_in s))
                                    (motor_target_position_in s)])
   \<and> (\<bar>f32 (motor_target_position_in s - encoder_position_in s)\<bar> > MAX_POSITION_ERROR_IN
      \<longrightarrow> closedLoopCorrection s
            = s\<lparr>motor_in_motion := False,
                 delayed_ms := delayed_ms s + CORRECTION_SETTLE_MS,
                 txB := txB s @
                   [ErrPositionTooLarge
                      (f32 (motor_target_position_in s - encoder_position_in s))
                      (motor_target_position_in s) (encoder_position_in s),
                    if encoder_detected s
                    then StoppedEnc (f32 (real_of_int32 (motor_current_steps s) / STEPS_PER_IN))
                                    (encoder_position_in s)
                    else Stopped (f32 (real_of_int32 (motor_current_steps s) / STEPS_PER_IN))]\<rparr>
          \<and> \<not> motor_in_motion (closedLoopCorrection s)
          \<and> motor_target_position_in (closedLoopCorrection s) = motor_target_position_in s
          \<and> motor_target_steps (closedLoopCorrection s) = motor_target_steps s
          \<and> motor_current_steps (closedLoopCorrection s) = motor_current_steps s
          \<and> motor_direction (closedLoopCorrection s) = motor_direction s
          \<and> motor_velocity_ips (closedLoopCorrection s) = motor_velocity_ips s
          \<and> motor_step_interval_us (closedLoopCorrection s) = motor_step_interval_us s
          \<and> timer_alarm (closedLoopCorrection s) = timer_alarm s)"
proof (intro conjI impI)
  let ?e = "f32 (motor_target_position_in s - encoder_position_in s)"
  have lt: "POSITION_TOLERANCE_IN < MAX_POSITION_ERROR_IN"
    by (simp add: constant_values)
  {
    assume e: "\<bar>?e\<bar> = MAX_POSITION_ERROR_IN"
    have n1: "\<not> \<bar>?e\<bar> \<le> POSITION_TOLERANCE_IN"
      unfolding e using lt by simp
    have n2: "\<not> \<bar>?e\<bar> > MAX_POSITION_ERROR_IN"
      unfolding e by simp
    show "motor_in_motion (closedLoopCorrection s)"
      using n1 n2 by (simp add: closedLoopCorrection_def Let_def delay_def CORRECTION_SETTLE_MS_def)
    show "txB (closedLoopCorrection s) = txB s @ [Correcting ?e (motor_target_position_in s)]"
      using n1 n2
      by (simp add: closedLoopCorrection_def Let_def delay_def syncMotorStepsWithEncoder_def
            sendResponseB_def updateTimerFrequency_def CORRECTION_SETTLE_MS_def)
  }
  {
    assume g: "\<bar>?e\<bar> > MAX_POSITION_ERROR_IN"
    have n1: "\<not> \<bar>?e\<bar> \<le> POSITION_TOLERANCE_IN"
      using g lt by simp
    show eq: "closedLoopCorrection s
            = s\<lparr>motor_in_motion := False,
                 delayed_ms := delayed_ms s + CORRECTION_SETTLE_MS,
                 txB := txB s @
                   [ErrPositionTooLarge ?e (motor_target_position_in s) (encoder_position_in s),
                    if encoder_detected s
                    then StoppedEnc (f32 (real_of_int32 (motor_current_steps s) / STEPS_PER_IN))
                                    (encoder_position_in s)
                    else Stopped (f32 (real_of_int32 (motor_current_steps s) / STEPS_PER_IN))]\<rparr>"
      using n1 g
      by (simp add: closedLoopCorrection_def Let_def delay_def stop_def sendResponseB_def
            CORRECTION_SETTLE_MS_def)
    show "\<not> motor_in_motion (closedLoopCorrection s)" by (simp add: eq)
    show "motor_target_position_in (closedLoopCorrection s) = motor_target_position_in s"
      by (simp add: eq)
    show "motor_target_steps (closedLoopCorrection s) = motor_target_steps s" by (simp add: eq)
    show "motor_current_steps (closedLoopCorrection s) = motor_current_steps s" by (simp add: eq)
    show "motor_direction (closedLoopCorrection s) = motor_direction s" by (simp add: eq)
    show "motor_velocity_ips (closedLoopCorrection s) = motor_velocity_ips s" by (simp add: eq)
    show "motor_step_interval_us (closedLoopCorrection s) = motor_step_interval_us s"
      by (simp add: eq)
    show "timer_alarm (closedLoopCorrection s) = timer_alarm s" by (simp add: eq)
  }
qed

theorem C4_alarm_boundary_witness:
  "\<bar>f32 (motor_target_position_in (ex_goto ''g0.2'') - encoder_position_in (ex_goto ''g0.2''))\<bar>
     = MAX_POSITION_ERROR_IN
   \<and> motor_target_position_in (ex_goto ''g0.2'') = f32 0.2
   \<and> motor_in_motion (closedLoopCorrection (ex_goto ''g0.2''))
   \<and> last (txB (closedLoopCorrection (ex_goto ''g0.2'')))
       = Correcting MAX_POSITION_ERROR_IN MAX_POSITION_ERROR_IN
   \<and> \<bar>f32 (motor_target_position_in (ex_goto ''g0.20000002'')
            - encoder_position_in (ex_goto ''g0.20000002''))\<bar> > MAX_POSITION_ERROR_IN
   \<and> f32 (motor_target_position_in (ex_goto ''g0.20000002'')
          - encoder_position_in (ex_goto ''g0.20000002'')) - MAX_POSITION_ERROR_IN
       = 1 / 67108864
   \<and> motor_in_motion (ex_goto ''g0.20000002'')
   \<and> \<not> motor_in_motion (closedLoopCorrection (ex_goto ''g0.20000002''))
   \<and> \<bar>f32 (motor_target_position_in (ex_goto ''g1'') - encoder_position_in (ex_goto ''g1''))\<bar>
     > MAX_POSITION_ERROR_IN
   \<and> motor_in_motion (ex_goto ''g1'')
   \<and> \<not> motor_in_motion (closedLoopCorrection (ex_goto ''g1''))
   \<and> motor_target_position_in (closedLoopCorrection (ex_goto ''g1'')) = 1
   \<and> motor_target_steps (closedLoopCorrection (ex_goto ''g1'')) = 1089
   \<and> ErrPositionTooLarge 1 1 0 \<in> set (txB (closedLoopCorrection (ex_goto ''g1'')))"
proof -
  note f = ex_goto_g02_facts
  note g = ex_goto_g1_facts
  note h = ex_goto_g020000002_facts
  have e: "\<bar>f32 (motor_target_position_in (ex_goto ''g0.2'')
                  - encoder_position_in (ex_goto ''g0.2''))\<bar> = MAX_POSITION_ERROR_IN"
    and e': "f32 (motor_target_position_in (ex_goto ''g0.2'')
                  - encoder_position_in (ex_goto ''g0.2'')) = MAX_POSITION_ERROR_IN"
    and e0: "motor_target_position_in (ex_goto ''g0.2'') = f32 0.2"
    and e0': "motor_target_position_in (ex_goto ''g0.2'') = MAX_POSITION_ERROR_IN"
    and b: "\<bar>f32 (motor_target_position_in (ex_goto ''g0.20000002'')
            - encoder_position_in (ex_goto ''g0.20000002''))\<bar> > MAX_POSITION_ERROR_IN"
    and b0: "f32 (motor_target_position_in (ex_goto ''g0.20000002'')
          - encoder_position_in (ex_goto ''g0.20000002'')) - MAX_POSITION_ERROR_IN
       = 1 / 67108864"
    and a: "\<bar>f32 (motor_target_position_in (ex_goto ''g1'')
                  - encoder_position_in (ex_goto ''g1''))\<bar> > MAX_POSITION_ERROR_IN"
    by (simp_all only: f(2) f(3) g(1) g(2) h(1) h(2)) code_simp+
  have e1: "motor_in_motion (closedLoopCorrection (ex_goto ''g0.2''))"
    and e2': "txB (closedLoopCorrection (ex_goto ''g0.2''))
              = txB (ex_goto ''g0.2'')
                @ [Correcting (f32 (motor_target_position_in (ex_goto ''g0.2'')
                                    - encoder_position_in (ex_goto ''g0.2'')))
                              (motor_target_position_in (ex_goto ''g0.2''))]"
    using C4_alarm_boundary [of "ex_goto ''g0.2''"] e by blast+
  have e2: "last (txB (closedLoopCorrection (ex_goto ''g0.2'')))
            = Correcting MAX_POSITION_ERROR_IN MAX_POSITION_ERROR_IN"
    by (simp only: e2' last_snoc e') (simp only: e0')
  have b1: "\<not> motor_in_motion (closedLoopCorrection (ex_goto ''g0.20000002''))"
    using C4_alarm_boundary [of "ex_goto ''g0.20000002''"] b by blast
  note t = C4_alarm_boundary [of "ex_goto ''g1''"]
  have a1: "\<not> motor_in_motion (closedLoopCorrection (ex_goto ''g1''))"
    and a2': "motor_target_position_in (closedLoopCorrection (ex_goto ''g1''))
              = motor_target_position_in (ex_goto ''g1'')"
    and a3': "motor_target_steps (closedLoopCorrection (ex_goto ''g1''))
              = motor_target_steps (ex_goto ''g1'')"
    and a4': "closedLoopCorrection (ex_goto ''g1'')
            = (ex_goto ''g1'')\<lparr>motor_in_motion := False,
                 delayed_ms := delayed_ms (ex_goto ''g1'') + CORRECTION_SETTLE_MS,
                 txB := txB (ex_goto ''g1'') @
                   [ErrPositionTooLarge
                      (f32 (motor_target_position_in (ex_goto ''g1'')
                            - encoder_position_in (ex_goto ''g1'')))
                      (motor_target_position_in (ex_goto ''g1''))
                      (encoder_position_in (ex_goto ''g1'')),
                    if encoder_detected (ex_goto ''g1'')
                    then StoppedEnc
                           (f32 (real_of_int32 (motor_current_steps (ex_goto ''g1''))
                                 / STEPS_PER_IN))
                           (encoder_position_in (ex_goto ''g1''))
                    else Stopped
                           (f32 (real_of_int32 (motor_current_steps (ex_goto ''g1''))
                                 / STEPS_PER_IN))]\<rparr>"
    using t a by blast+
  have a2: "motor_target_position_in (closedLoopCorrection (ex_goto ''g1'')) = 1"
    by (simp only: a2' g)
  have a3: "motor_target_steps (closedLoopCorrection (ex_goto ''g1'')) = 1089"
    by (simp only: a3' g)
  have a4: "ErrPositionTooLarge 1 1 0 \<in> set (txB (closedLoopCorrection (ex_goto ''g1'')))"
    by (subst a4') (simp add: g literal_rounding)
  show ?thesis
    by (intro conjI) (fact e e0 e1 e2 b b0 h b1 a g a1 a2 a3 a4)+
qed

subsection \<open>Stop and home\<close>

text \<open>
  C5 says that \<open>in_motion = false\<close> implies a low step output in every reachable
  state. The run \<open>ex_stopped\<close> (start-up, \<^verbatim>\<open>g1\<close>, one timer tick, \<^verbatim>\<open>s\<close>) ends
  with \<open>in_motion\<close> false and the step output high: \<^verbatim>\<open>stop()\<close> clears the flag
  and does not write the pin, unlike the completion branch of the timer routine.
\<close>

theorem C5_stop_leaves_step_high:
  "reachableB ex_stopped \<and> \<not> motor_in_motion ex_stopped \<and> step_pin ex_stopped
   \<and> last (txB ex_stopped) = StoppedEnc 0 0"
proof -
  have f: "\<not> motor_in_motion ex_stopped" "step_pin ex_stopped"
    "last (txB ex_stopped) = StoppedEnc 0 0"
    by (simp_all add: ex_stopped_eq ex_idle_eq)
  show ?thesis
    by (intro conjI) (fact reachable_examples f)+
qed

text \<open>What \<^verbatim>\<open>home()\<close> leaves, for every prior state.\<close>

lemma home_effect:
  "encoder_counts (home s) = 0 \<and> encoder_position_in (home s) = 0
   \<and> motor_target_steps (home s) = 0 \<and> motor_target_position_in (home s) = 0
   \<and> \<not> motor_in_motion (home s)
   \<and> txB (home s) = txB s @ [EncoderReset, Homed]
   \<and> motor_current_steps (home s)
       = (if encoder_detected s
          then int32_of_real (f32 (encoder_position_in s * STEPS_PER_IN)) else 0)"
  by (simp add: home_def Let_def resetEncoder_def resetEncoderCount_def sendResponseB_def
        syncMotorStepsWithEncoder_def)

text \<open>
  C6 says that after \<^verbatim>\<open>home()\<close> the open-loop step counter is 0. The run
  \<open>ex_homed\<close> (start-up, four forward encoder edges, a pass that receives \<^verbatim>\<open>h\<close>)
  ends with the encoder count and position at 0 and \<open>current_steps = 16\<close>:
  \<^verbatim>\<open>home()\<close> zeroes \<open>current_steps\<close>, then reloads it from the encoder position,
  and only then resets the encoder.
\<close>

theorem C6_home_keeps_stale_steps:
  "reachableB ex_homed \<and> motor_current_steps ex_homed = 16 \<and> encoder_counts ex_homed = 0
   \<and> encoder_position_in ex_homed = 0 \<and> motor_target_steps ex_homed = 0
   \<and> \<not> motor_in_motion ex_homed \<and> last (txB ex_homed) = Homed"
proof -
  have f: "motor_current_steps ex_homed = 16" "encoder_counts ex_homed = 0"
    "encoder_position_in ex_homed = 0" "motor_target_steps ex_homed = 0"
    "\<not> motor_in_motion ex_homed" "last (txB ex_homed) = Homed"
    by (simp_all add: ex_homed_eq ex_idle_eq)
  show ?thesis
    by (intro conjI) (fact reachable_examples f)+
qed

end
